theory Spec2Isabelle
  imports Complex_Main
begin

section \<open>Conventions of the embedding\<close>

text \<open>
  The development embeds the learner pipeline of \<^verbatim>\<open>agents/fast_dqn_agent.py\<close> and the
  epsilon update of \<^verbatim>\<open>deprecated/agents/fast_dqn_agent.py\<close>.

  \<^item> Python integers are \<open>int\<close>.
  \<^item> In the current agent a Python float is an IEEE binary64 number and an entry of a torch
    tensor an IEEE binary32 number: a value of the type \<open>fp\<close>, finite, infinite or NaN,
    with every operation rounded to nearest, ties to even. Zero has no sign here: the sign
    of a zero is seen only by a division by it, which Python raises on.
  \<^item> The deprecated agent's epsilon, the frame-step ratio and the sizes of the replay memory
    are read in exact arithmetic, as \<open>real\<close> and \<open>int\<close>.
  \<^item> A raised exception is the \<open>Inl\<close> branch of a sum; \<open>bindE\<close> sequences two
    steps and stops at the first exception.
  \<^item> A method \<^verbatim>\<open>_name\<close> of the class is the constant \<open>name\<close>.
  \<^item> The network, the optimizer, the loss functions of torch and the environment are
    external: they are parameters of the model (records of functions).
\<close>

datatype error =
    NotImplementedError
  | ZeroDivisionError
  | OverflowError
  | ValueError
  | TypeError
  | AttributeError
  | AssertionError
  | RuntimeError
  | IndexError
  | FileNotFoundError

definition bindE :: "error + 'a \<Rightarrow> ('a \<Rightarrow> error + 'b) \<Rightarrow> error + 'b" where
  "bindE m f = (case m of Inl e \<Rightarrow> Inl e | Inr x \<Rightarrow> f x)"

text \<open>Python's \<^verbatim>\<open>a / b\<close> in exact arithmetic: true division, raising on a zero
  divisor.\<close>

definition py_truediv :: "real \<Rightarrow> real \<Rightarrow> error + real" where
  "py_truediv a b = (if b = 0 then Inl ZeroDivisionError else Inr (a / b))"

text \<open>Python's \<^verbatim>\<open>a % b\<close> on integers: the result has the sign of the divisor, as
  \<open>mod\<close> on \<open>int\<close> has; a zero divisor raises.\<close>

definition py_mod :: "int \<Rightarrow> int \<Rightarrow> error + int" where
  "py_mod a b = (if b = 0 then Inl ZeroDivisionError else Inr (a mod b))"

text \<open>Python's \<^verbatim>\<open>int(x)\<close> on a float: truncation towards zero.\<close>

definition py_int :: "real \<Rightarrow> int" where
  "py_int x = (if 0 \<le> x then \<lfloor>x\<rfloor> else \<lceil>x\<rceil>)"

section \<open>Floating-point numbers\<close>

text \<open>A floating-point value: a finite number, an infinity or NaN. A finite value that
  an operation returns is a number of the format, since the operation rounds.\<close>

datatype fp = Finite real | PInf | NInf | NaN

text \<open>The integer nearest to a real, the even one of two that are equally near.\<close>

definition round_half_even :: "real \<Rightarrow> int" where
  "round_half_even x =
     (let f = \<lfloor>x\<rfloor>; r = x - real_of_int f
      in if r < 1 / 2 then f else if 1 / 2 < r then f + 1 else if even f then f else f + 1)"

text \<open>A binary format has a precision \<open>p\<close> (the bits of the significand) and a largest
  exponent \<open>emx\<close>; its least exponent is \<open>1 - emx\<close>. Around \<open>x\<close> the numbers of the format
  are the multiples of \<open>2\<close> to the power \<open>ulp_exp p emx x\<close>: the exponent of \<open>x\<close> less
  \<open>p - 1\<close>, and no less than that of the subnormal numbers.\<close>

definition ulp_exp :: "nat \<Rightarrow> int \<Rightarrow> real \<Rightarrow> int" where
  "ulp_exp p emx x = max (\<lfloor>log 2 \<bar>x\<bar>\<rfloor> - (int p - 1)) (1 - emx - (int p - 1))"

text \<open>Rounding to nearest, ties to even, with the exponent unbounded above.\<close>

definition round_real :: "nat \<Rightarrow> int \<Rightarrow> real \<Rightarrow> real" where
  "round_real p emx x =
     (if x = 0 then 0
      else real_of_int (round_half_even (x / 2 powi ulp_exp p emx x)) * 2 powi ulp_exp p emx x)"

text \<open>The largest finite number of a format.\<close>

definition max_finite :: "nat \<Rightarrow> int \<Rightarrow> real" where
  "max_finite p emx = (2 - 2 powi (1 - int p)) * 2 powi emx"

text \<open>The result of an operation whose exact value is \<open>x\<close>: the rounded value, or an
  infinity when that is beyond the largest finite number.\<close>

definition fround :: "nat \<Rightarrow> int \<Rightarrow> real \<Rightarrow> fp" where
  "fround p emx x =
     (let r = round_real p emx x
      in if max_finite p emx < r then PInf else if r < - max_finite p emx then NInf else Finite r)"

text \<open>Binary64 (a Python float) and binary32 (an entry of a \<^verbatim>\<open>FloatTensor\<close>).\<close>

definition fround64 :: "real \<Rightarrow> fp" where
  "fround64 = fround 53 1023"

definition fround32 :: "real \<Rightarrow> fp" where
  "fround32 = fround 24 127"

text \<open>The arithmetic of IEEE 754 on these values, for a rounding function \<open>rnd\<close>.\<close>

definition fp_neg :: "fp \<Rightarrow> fp" where
  "fp_neg a = (case a of Finite x \<Rightarrow> Finite (- x) | PInf \<Rightarrow> NInf | NInf \<Rightarrow> PInf | NaN \<Rightarrow> NaN)"

fun fp_add :: "(real \<Rightarrow> fp) \<Rightarrow> fp \<Rightarrow> fp \<Rightarrow> fp" where
  "fp_add rnd (Finite x) (Finite y) = rnd (x + y)"
| "fp_add rnd NaN b = NaN"
| "fp_add rnd a NaN = NaN"
| "fp_add rnd PInf NInf = NaN"
| "fp_add rnd NInf PInf = NaN"
| "fp_add rnd PInf b = PInf"
| "fp_add rnd a PInf = PInf"
| "fp_add rnd NInf b = NInf"
| "fp_add rnd a NInf = NInf"

definition fp_sub :: "(real \<Rightarrow> fp) \<Rightarrow> fp \<Rightarrow> fp \<Rightarrow> fp" where
  "fp_sub rnd a b = fp_add rnd a (fp_neg b)"

fun fp_mul :: "(real \<Rightarrow> fp) \<Rightarrow> fp \<Rightarrow> fp \<Rightarrow> fp" where
  "fp_mul rnd (Finite x) (Finite y) = rnd (x * y)"
| "fp_mul rnd NaN b = NaN"
| "fp_mul rnd a NaN = NaN"
| "fp_mul rnd (Finite x) b =
     (if x = 0 then NaN else if (0 < x) = (b = PInf) then PInf else NInf)"
| "fp_mul rnd a (Finite y) =
     (if y = 0 then NaN else if (0 < y) = (a = PInf) then PInf else NInf)"
| "fp_mul rnd a b = (if a = b then PInf else NInf)"

text \<open>The quotient by a divisor that is not zero.\<close>

fun fp_div :: "(real \<Rightarrow> fp) \<Rightarrow> fp \<Rightarrow> fp \<Rightarrow> fp" where
  "fp_div rnd (Finite x) (Finite y) = rnd (x / y)"
| "fp_div rnd NaN b = NaN"
| "fp_div rnd a NaN = NaN"
| "fp_div rnd (Finite x) b = Finite 0"
| "fp_div rnd a (Finite y) = (if (0 < y) = (a = PInf) then PInf else NInf)"
| "fp_div rnd a b = NaN"

text \<open>The comparison \<^verbatim>\<open><\<close> of IEEE 754: false when an operand is NaN.\<close>

fun fp_less :: "fp \<Rightarrow> fp \<Rightarrow> bool" where
  "fp_less (Finite x) (Finite y) = (x < y)"
| "fp_less NaN b = False"
| "fp_less a NaN = False"
| "fp_less a PInf = (a \<noteq> PInf)"
| "fp_less NInf b = (b \<noteq> NInf)"
| "fp_less a b = False"

text \<open>Python's \<^verbatim>\<open>n < x\<close> for an integer and a float: it compares the exact values.\<close>

definition int_less_float :: "int \<Rightarrow> fp \<Rightarrow> bool" where
  "int_less_float n x =
     (case x of Finite y \<Rightarrow> real_of_int n < y | PInf \<Rightarrow> True | NInf \<Rightarrow> False | NaN \<Rightarrow> False)"

text \<open>The conversion of a Python integer to a float, in an operation that mixes the two:
  the integer rounded, and an \<open>OverflowError\<close> when it is too large.\<close>

definition py_float :: "int \<Rightarrow> error + fp" where
  "py_float n =
     (case fround64 (real_of_int n) of
        Finite r \<Rightarrow> Inr (Finite r)
      | PInf \<Rightarrow> Inl OverflowError
      | NInf \<Rightarrow> Inl OverflowError
      | NaN \<Rightarrow> Inl OverflowError)"

text \<open>Python's \<^verbatim>\<open>a / b\<close> on floats: a zero divisor raises.\<close>

definition float_truediv :: "fp \<Rightarrow> fp \<Rightarrow> error + fp" where
  "float_truediv a b = (if b = Finite 0 then Inl ZeroDivisionError else Inr (fp_div fround64 a b))"

text \<open>\<^verbatim>\<open>math.exp\<close>: the exponential, rounded; it raises when the result of a finite
  argument overflows and returns zero when it underflows. The C library's function is
  taken as correctly rounded; the properties below use only its values at zero and at
  arguments where it overflows or underflows.\<close>

definition math_exp :: "fp \<Rightarrow> error + fp" where
  "math_exp a =
     (case a of
        Finite x \<Rightarrow> (if fround64 (exp x) = PInf then Inl OverflowError else Inr (fround64 (exp x)))
      | PInf \<Rightarrow> Inr PInf
      | NInf \<Rightarrow> Inr (Finite 0)
      | NaN \<Rightarrow> Inr NaN)"

text \<open>Whether a value is a number (\<^verbatim>\<open>math.isfinite\<close>).\<close>

definition is_finite :: "fp \<Rightarrow> bool" where
  "is_finite a = (case a of Finite x \<Rightarrow> True | PInf \<Rightarrow> False | NInf \<Rightarrow> False | NaN \<Rightarrow> False)"

text \<open>The conversion of a Python float to an entry of a \<^verbatim>\<open>FloatTensor\<close>.\<close>

definition to_single :: "fp \<Rightarrow> fp" where
  "to_single a = (case a of Finite x \<Rightarrow> fround32 x | PInf \<Rightarrow> PInf | NInf \<Rightarrow> NInf | NaN \<Rightarrow> NaN)"

text \<open>The order in which \<^verbatim>\<open>max\<close> of torch scans a row: the order of the numbers with the
  infinities at its ends, and NaN above everything (the scan replaces its current maximum
  \<open>m\<close> by an entry \<open>v\<close> unless \<open>v <= m\<close>, so by any NaN, and stops at a NaN).\<close>

instantiation fp :: linorder
begin

definition less_eq_fp :: "fp \<Rightarrow> fp \<Rightarrow> bool" where
  "less_eq_fp a b =
     (case a of
        NInf \<Rightarrow> True
      | Finite x \<Rightarrow> (case b of NInf \<Rightarrow> False | Finite y \<Rightarrow> x \<le> y | PInf \<Rightarrow> True | NaN \<Rightarrow> True)
      | PInf \<Rightarrow> (case b of PInf \<Rightarrow> True | NaN \<Rightarrow> True | Finite y \<Rightarrow> False | NInf \<Rightarrow> False)
      | NaN \<Rightarrow> (case b of NaN \<Rightarrow> True | Finite y \<Rightarrow> False | PInf \<Rightarrow> False | NInf \<Rightarrow> False))"

definition less_fp :: "fp \<Rightarrow> fp \<Rightarrow> bool" where
  "less_fp a b = (a \<le> b \<and> \<not> b \<le> a)"

instance
  by standard (auto simp: less_eq_fp_def less_fp_def split: fp.splits)

end

section \<open>Configuration of the agent\<close>

text \<open>The constructor's arguments that \<^verbatim>\<open>FastDQNAgent.__init__\<close> stores unchanged.
  \<open>save_model_dir\<close> is \<open>None\<close> for Python's \<^verbatim>\<open>None\<close>. The discount and the three
  numbers of the schedule are Python floats (an integer argument is read as the float of
  the same value).\<close>

record config =
  batch_size :: int
  discount :: fp
  eps_method :: string
  eps_start :: fp
  eps_end :: fp
  eps_decay :: fp
  memory_size :: int
  init_memory_size :: int
  frame_step_ratio :: real
  gradient_clipping :: real
  double_dqn :: bool
  target_update_freq :: int
  allow_eval_mode :: bool
  loss_type :: string
  save_model_dir :: "string option"
  save_model_freq :: int
  print_freq :: int

section \<open>Epsilon schedule\<close>

text \<open>\<^verbatim>\<open>_get_current_eps(self, steps)\<close>: the two schedules and the
  \<^verbatim>\<open>raise NotImplementedError\<close> of the last branch, in the order in which Python
  evaluates them. \<^verbatim>\<open>min(self._eps_decay, steps)\<close> is \<^verbatim>\<open>steps\<close>, an integer, when
  \<^verbatim>\<open>steps < self._eps_decay\<close>, and \<^verbatim>\<open>self._eps_decay\<close> otherwise; the product with an
  integer converts it. Both divisions by \<^verbatim>\<open>self._eps_decay\<close> raise when it is zero.\<close>

definition get_current_eps :: "config \<Rightarrow> int \<Rightarrow> error + fp" where
  "get_current_eps c steps =
     (if eps_method c = ''exponential'' then
        bindE (py_float steps) (\<lambda>s.
        bindE (float_truediv (fp_mul fround64 (Finite (- 1)) s) (eps_decay c)) (\<lambda>x.
        bindE (math_exp x) (\<lambda>y.
          Inr (fp_add fround64 (eps_end c)
                 (fp_mul fround64 (fp_sub fround64 (eps_start c) (eps_end c)) y)))))
      else if eps_method c = ''linear'' then
        bindE (if int_less_float steps (eps_decay c) then py_float steps
               else Inr (eps_decay c)) (\<lambda>steps'.
        bindE (float_truediv
                 (fp_mul fround64 (fp_sub fround64 (eps_start c) (eps_end c)) steps')
                 (eps_decay c)) (\<lambda>x.
          Inr (fp_sub fround64 (eps_start c) x)))
      else Inl NotImplementedError)"

section \<open>Tensors\<close>

text \<open>A one-dimensional tensor is a list of binary32 values, a batch of action-value rows a
  list of lists. An elementwise operation needs operands of the same size; any other pair
  of sizes is a \<open>RuntimeError\<close> here (torch's broadcasting of a one-element operand is not
  modelled: it arises only when the network returns a wrong number of rows).\<close>

type_synonym vec = "fp list"
type_synonym mat = "fp list list"

definition tensor_zip :: "(fp \<Rightarrow> fp \<Rightarrow> fp) \<Rightarrow> vec \<Rightarrow> vec \<Rightarrow> error + vec" where
  "tensor_zip f xs ys =
     (if length xs = length ys then Inr (map2 f xs ys) else Inl RuntimeError)"

text \<open>\<^verbatim>\<open>t.max(dim=1)\<close> returns, for each row, the maximal value and an index where it
  stands. The scan keeps the first maximal entry (a later entry replaces the current
  one only when greater in the order of the scan); a row without entries cannot be
  reduced.\<close>

fun row_max :: "fp \<Rightarrow> nat \<Rightarrow> nat \<Rightarrow> fp list \<Rightarrow> fp \<times> nat" where
  "row_max best besti i [] = (best, besti)"
| "row_max best besti i (x # xs) =
     (if best < x then row_max x i (Suc i) xs else row_max best besti (Suc i) xs)"

definition max_row :: "fp list \<Rightarrow> error + fp \<times> nat" where
  "max_row row = (case row of [] \<Rightarrow> Inl RuntimeError | x # xs \<Rightarrow> Inr (row_max x 0 1 xs))"

fun max_dim1 :: "mat \<Rightarrow> error + (fp \<times> nat) list" where
  "max_dim1 [] = Inr []"
| "max_dim1 (r # rs) =
     bindE (max_row r) (\<lambda>m. bindE (max_dim1 rs) (\<lambda>ms. Inr (m # ms)))"

text \<open>\<^verbatim>\<open>t.gather(1, index.view(-1, 1))\<close>: entry \<open>index[i]\<close> of row \<open>i\<close>. The index
  tensor must have one entry per row and every entry must address a column.\<close>

definition gather_row :: "fp list \<Rightarrow> int \<Rightarrow> error + fp" where
  "gather_row row j =
     (if 0 \<le> j \<and> j < int (length row) then Inr (row ! nat j) else Inl RuntimeError)"

fun gather1 :: "mat \<Rightarrow> int list \<Rightarrow> error + vec" where
  "gather1 [] [] = Inr []"
| "gather1 (r # rs) (j # js) =
     bindE (gather_row r j) (\<lambda>v. bindE (gather1 rs js) (\<lambda>vs. Inr (v # vs)))"
| "gather1 _ _ = Inl RuntimeError"

section \<open>Transitions and batches\<close>

text \<open>Modelled from the spec: the \<^verbatim>\<open>Transition\<close> tuple of \<^verbatim>\<open>agents/memory.py\<close>, which is
  not among the sources: one \<open>(observation, action, reward, next_observation, done)\<close>
  experience tuple. The reward is a Python float. The field \<^verbatim>\<open>done\<close> is \<open>done_flag\<close>,
  since \<^verbatim>\<open>done\<close> is a keyword.\<close>

record 'obs transition =
  observation :: 'obs
  action :: int
  reward :: fp
  next_observation :: 'obs
  done_flag :: bool

text \<open>The five tensors that \<^verbatim>\<open>_transitions_to_batch\<close> returns, in its order.\<close>

record 'obs batch =
  next_obs_batch :: "'obs list"
  obs_batch :: "'obs list"
  reward_batch :: vec
  action_batch :: "int list"
  done_batch :: vec

text \<open>\<^verbatim>\<open>_transitions_to_batch(self, transitions)\<close>. With no transition,
  \<^verbatim>\<open>Transition(*zip(*transitions))\<close> is a call without arguments: a \<open>TypeError\<close>.
  \<^verbatim>\<open>torch.FloatTensor(batch.reward)\<close> rounds every reward to binary32, and
  \<^verbatim>\<open>torch.Tensor(batch.done)\<close> turns the flags into \<open>1\<close> and \<open>0\<close>.\<close>

definition transitions_to_batch :: "'obs transition list \<Rightarrow> error + 'obs batch" where
  "transitions_to_batch transitions =
     (if transitions = [] then Inl TypeError
      else Inr \<lparr> next_obs_batch = map next_observation transitions,
                 obs_batch = map observation transitions,
                 reward_batch = map (\<lambda>t. to_single (reward t)) transitions,
                 action_batch = map action transitions,
                 done_batch = map (\<lambda>t. if done_flag t then Finite 1 else Finite 0) transitions \<rparr>)"

section \<open>The agent and its collaborators\<close>

text \<open>The network and the loss functions of torch are external. \<open>forward w training xs\<close>
  is the forward pass of a module with weights \<open>w\<close> in training or evaluation mode on a
  batch of observations; \<open>gradient_step\<close> is \<^verbatim>\<open>zero_grad\<close>, \<^verbatim>\<open>backward\<close>, the clamping of
  the gradients and \<^verbatim>\<open>optimizer.step()\<close> taken together: from the weights, the optimizer's
  state, the observations, the actions, the target, the loss kind and the clipping bound
  to the new weights and the new optimizer state. \<open>mse_value\<close> and \<open>smooth_l1_value\<close>
  are the values, as Python floats, that \<^verbatim>\<open>F.mse_loss\<close> and \<^verbatim>\<open>F.smooth_l1_loss\<close> give
  on two tensors with the same number of elements.\<close>

record ('w, 'o, 'obs) network =
  forward :: "'w \<Rightarrow> bool \<Rightarrow> 'obs list \<Rightarrow> mat"
  gradient_step :: "'w \<Rightarrow> 'o \<Rightarrow> 'obs list \<Rightarrow> int list \<Rightarrow> vec \<Rightarrow> string \<Rightarrow> real \<Rightarrow> 'w \<times> 'o"
  mse_value :: "vec \<Rightarrow> vec \<Rightarrow> fp"
  smooth_l1_value :: "vec \<Rightarrow> vec \<Rightarrow> fp"

text \<open>\<^verbatim>\<open>F.mse_loss\<close> and \<^verbatim>\<open>F.smooth_l1_loss\<close>: they refuse operands with different
  numbers of elements.\<close>

definition mse_loss :: "('w, 'o, 'obs) network \<Rightarrow> vec \<Rightarrow> vec \<Rightarrow> error + fp" where
  "mse_loss net q t =
     (if length q = length t then Inr (mse_value net q t) else Inl RuntimeError)"

definition smooth_l1_loss :: "('w, 'o, 'obs) network \<Rightarrow> vec \<Rightarrow> vec \<Rightarrow> error + fp" where
  "smooth_l1_loss net q t =
     (if length q = length t then Inr (smooth_l1_value net q t) else Inl RuntimeError)"

text \<open>The mutable attributes of \<^verbatim>\<open>FastDQNAgent\<close>: the weights and the mode flag of
  \<^verbatim>\<open>_q_network\<close>, those of \<^verbatim>\<open>_target_q_network\<close> (an attribute that exists only
  with double DQN), the optimizer, the shared scalar \<^verbatim>\<open>_current_eps\<close> and
  \<^verbatim>\<open>_episode_idx\<close>.\<close>

record ('w, 'o) agent =
  q_network :: 'w
  q_training :: bool
  target_q_network :: "'w option"
  target_training :: bool
  optimizer :: 'o
  current_eps :: fp
  episode_idx :: int

text \<open>\<^verbatim>\<open>_update_target_network(self)\<close>: \<^verbatim>\<open>load_state_dict\<close> copies every weight of the
  value network into the target network.\<close>

definition update_target_network :: "('w, 'o) agent \<Rightarrow> error + ('w, 'o) agent" where
  "update_target_network s =
     (case target_q_network s of
        None \<Rightarrow> Inl AttributeError
      | Some _ \<Rightarrow> Inr (s\<lparr>target_q_network := Some (q_network s)\<rparr>))"

text \<open>\<^verbatim>\<open>_init_target_network(self, network)\<close>: a deep copy of the module passed to
  the constructor, which is the module \<^verbatim>\<open>self._q_network\<close> holds (so the copy has the
  weights a checkpoint has just loaded), put in evaluation mode when
  \<^verbatim>\<open>allow_eval_mode\<close> holds.\<close>

definition init_target_network :: "config \<Rightarrow> ('w, 'o) agent \<Rightarrow> ('w, 'o) agent" where
  "init_target_network c s =
     s\<lparr>target_q_network := Some (q_network s),
       target_training := (if allow_eval_mode c then False else q_training s)\<rparr>"

section \<open>The optimisation step\<close>

text \<open>Lines 190 to 196 of \<^verbatim>\<open>_optimize\<close>: the value of the next state, from the value
  network alone or, with double DQN, from the target network at the action the value
  network prefers.\<close>

definition futures_of ::
  "('w, 'o, 'obs) network \<Rightarrow> config \<Rightarrow> ('w, 'o) agent \<Rightarrow> 'obs list \<Rightarrow> error + vec" where
  "futures_of net c s next_obs =
     (let q_next = forward net (q_network s) (q_training s) next_obs in
      if double_dqn c then
        (case target_q_network s of
           None \<Rightarrow> Inl AttributeError
         | Some tw \<Rightarrow>
             let q_next_target = forward net tw (target_training s) next_obs in
             bindE (max_dim1 q_next) (\<lambda>m. gather1 q_next_target (map (\<lambda>p. int (snd p)) m)))
      else bindE (max_dim1 q_next) (\<lambda>m. Inr (map fst m)))"

text \<open>Lines 197 and 198: \<^verbatim>\<open>futures = futures * (1 - done_batch)\<close> and
  \<^verbatim>\<open>target_q = reward_batch + self._discount * futures\<close>, on binary32 tensors; the
  discount, a Python float, becomes a binary32 scalar.\<close>

definition target_q_of :: "config \<Rightarrow> vec \<Rightarrow> vec \<Rightarrow> vec \<Rightarrow> error + vec" where
  "target_q_of c futures rewards dones =
     bindE (tensor_zip (fp_mul fround32) futures (map (fp_sub fround32 (Finite 1)) dones))
       (\<lambda>futures. tensor_zip (fp_add fround32) rewards
                     (map (fp_mul fround32 (to_single (discount c))) futures))"

text \<open>Lines 190 to 198 together: the bootstrapped target of a batch.\<close>

definition target_q_batch ::
  "('w, 'o, 'obs) network \<Rightarrow> config \<Rightarrow> ('w, 'o) agent \<Rightarrow> 'obs batch \<Rightarrow> error + vec" where
  "target_q_batch net c s b =
     bindE (futures_of net c s (next_obs_batch b)) (\<lambda>futures.
       target_q_of c futures (reward_batch b) (done_batch b))"

text \<open>Lines 204 to 209: the loss by its configured kind.\<close>

definition compute_loss :: "('w, 'o, 'obs) network \<Rightarrow> config \<Rightarrow> vec \<Rightarrow> vec \<Rightarrow> error + fp" where
  "compute_loss net c q target_q =
     (if loss_type c = ''smooth_l1'' then smooth_l1_loss net q target_q
      else if loss_type c = ''mse'' then mse_loss net q target_q
      else Inl NotImplementedError)"

text \<open>\<^verbatim>\<open>_optimize(self)\<close> on the batch that \<^verbatim>\<open>self._batch_queue.get()\<close> returns: the
  loss and the agent after the gradient step.\<close>

definition optimize ::
  "('w, 'o, 'obs) network \<Rightarrow> config \<Rightarrow> ('w, 'o) agent \<Rightarrow> 'obs batch
     \<Rightarrow> error + fp \<times> ('w, 'o) agent" where
  "optimize net c s b =
     (let s1 = (if allow_eval_mode c then s\<lparr>q_training := False\<rparr> else s) in
      bindE (target_q_batch net c s1 b) (\<lambda>target_q.
        let s2 = s1\<lparr>q_training := True\<rparr> in
        bindE (gather1 (forward net (q_network s2) True (obs_batch b)) (action_batch b)) (\<lambda>q.
        bindE (compute_loss net c q target_q) (\<lambda>loss.
          let (w, opt) = gradient_step net (q_network s2) (optimizer s2) (obs_batch b)
                           (action_batch b) target_q (loss_type c) (gradient_clipping c)
          in Inr (loss, s2\<lparr>q_network := w, optimizer := opt\<rparr>)))))"

section \<open>Strings and file names\<close>

text \<open>\<^verbatim>\<open>'%d' % n\<close>: the decimal digits of an integer, after a minus sign when negative.\<close>

fun str_nat :: "nat \<Rightarrow> string" where
  "str_nat n =
     (if n < 10 then [''0123456789'' ! n]
      else str_nat (n div 10) @ [''0123456789'' ! (n mod 10)])"

declare str_nat.simps [simp del]

definition str_int :: "int \<Rightarrow> string" where
  "str_int i = (if i < 0 then CHR ''-'' # str_nat (nat (- i)) else str_nat (nat i))"

text \<open>\<^verbatim>\<open>os.path.join(a, b)\<close> of \<^verbatim>\<open>posixpath\<close>.\<close>

definition path_join :: "string \<Rightarrow> string \<Rightarrow> string" where
  "path_join a b =
     (if b \<noteq> [] \<and> hd b = CHR ''/'' then b
      else if a = [] \<or> last a = CHR ''/'' then a @ b
      else a @ ''/'' @ b)"

text \<open>\<^verbatim>\<open>s.rfind(ch)\<close>: the last position of a character, \<open>-1\<close> when it is absent.\<close>

definition rfind :: "string \<Rightarrow> char \<Rightarrow> int" where
  "rfind s ch =
     (if ch \<in> set s then int (length s) - 1 - int (length (takeWhile (\<lambda>x. x \<noteq> ch) (rev s)))
      else - 1)"

text \<open>\<^verbatim>\<open>int(s)\<close> on a string, for ASCII text: blanks around an optional sign and
  decimal digits; anything else is a \<open>ValueError\<close>. (The underscores that Python 3.6
  admits between digits are not read.)\<close>

definition is_space :: "char \<Rightarrow> bool" where
  "is_space ch = (ch \<in> set [CHR '' '', CHR 0x09, CHR 0x0A, CHR 0x0B, CHR 0x0C, CHR 0x0D])"

definition strip :: "string \<Rightarrow> string" where
  "strip s = rev (dropWhile is_space (rev (dropWhile is_space s)))"

definition digit_val :: "char \<Rightarrow> nat option" where
  "digit_val ch =
     (if ch \<in> set ''0123456789''
      then Some (length (takeWhile (\<lambda>x. x \<noteq> ch) ''0123456789'')) else None)"

fun parse_digits :: "nat \<Rightarrow> string \<Rightarrow> nat option" where
  "parse_digits acc [] = Some acc"
| "parse_digits acc (ch # cs) =
     (case digit_val ch of None \<Rightarrow> None | Some d \<Rightarrow> parse_digits (10 * acc + d) cs)"

definition int_of_str :: "string \<Rightarrow> error + int" where
  "int_of_str s =
     (let t = strip s;
          neg = (t \<noteq> [] \<and> hd t = CHR ''-'');
          ds = (if t \<noteq> [] \<and> (hd t = CHR ''-'' \<or> hd t = CHR ''+'') then tl t else t)
      in if ds = [] then Inl ValueError
         else case parse_digits 0 ds of
                None \<Rightarrow> Inl ValueError
              | Some n \<Rightarrow> Inr (if neg then - int n else int n))"

section \<open>Construction of the agent\<close>

text \<open>\<^verbatim>\<open>_load_model(self, model_path)\<close>: the file system is a map from paths to stored
  weights; a missing file raises.\<close>

definition load_model ::
  "(string \<Rightarrow> 'w option) \<Rightarrow> string \<Rightarrow> ('w, 'o) agent \<Rightarrow> error + ('w, 'o) agent" where
  "load_model fs model_path s =
     (case fs model_path of
        None \<Rightarrow> Inl FileNotFoundError
      | Some w \<Rightarrow> Inr (s\<lparr>q_network := w\<rparr>))"

text \<open>\<^verbatim>\<open>FastDQNAgent.__init__\<close>. The result is the configuration as stored (with
  \<^verbatim>\<open>_init_memory_size = max(init_memory_size, batch_size)\<close>) and the agent. The network
  comes with its weights and its mode flag, the optimizer with its initial state (built
  from \<^verbatim>\<open>learning_rate\<close> and \<^verbatim>\<open>momentum\<close>). The placement on devices and
  \<^verbatim>\<open>set_start_method\<close> are left out.\<close>

definition init ::
  "(string \<Rightarrow> 'w option) \<Rightarrow> config \<Rightarrow> 'w \<Rightarrow> bool \<Rightarrow> 'o \<Rightarrow> string option
     \<Rightarrow> error + config \<times> ('w, 'o) agent" where
  "init fs args network_weights network_training opt init_model_path =
     (let c = args\<lparr>init_memory_size := max (init_memory_size args) (batch_size args)\<rparr>;
          s0 = \<lparr> q_network = network_weights, q_training = network_training,
                 target_q_network = None, target_training = network_training,
                 optimizer = opt, current_eps = Finite 1, episode_idx = 0 \<rparr>
      in bindE (case init_model_path of
                  None \<Rightarrow> Inr s0
                | Some path \<Rightarrow>
                    if path = [] then Inr s0
                    else bindE (load_model fs path s0) (\<lambda>s1.
                         bindE (int_of_str (drop (nat (rfind path CHR ''-'' + 1)) path)) (\<lambda>n.
                           Inr (s1\<lparr>episode_idx := n\<rparr>))))
           (\<lambda>s1. bindE (if double_dqn c
                        then update_target_network (init_target_network c s1)
                        else Inr s1)
              (\<lambda>s2. Inr (c, s2))))"

section \<open>The learner's loop\<close>

text \<open>The locals of \<^verbatim>\<open>learn\<close> (\<^verbatim>\<open>steps\<close>, \<^verbatim>\<open>loss_sum\<close>) with the agent, the files that
  \<^verbatim>\<open>_save_model\<close> has written, oldest first, and the lines printed (step count,
  epsilon and mean loss; the clock is left out).\<close>

record ('w, 'o) learner =
  agent_of :: "('w, 'o) agent"
  steps :: int
  loss_sum :: fp
  saved :: "(string \<times> 'w) list"
  printed :: "(int \<times> fp \<times> fp) list"

text \<open>The state in which \<^verbatim>\<open>learn\<close> enters its loop: \<^verbatim>\<open>steps, loss_sum = 0, 0.0\<close>.\<close>

definition learn_start :: "('w, 'o) agent \<Rightarrow> ('w, 'o) learner" where
  "learn_start s =
     \<lparr> agent_of = s, steps = 0, loss_sum = Finite 0, saved = [], printed = [] \<rparr>"

text \<open>One turn of the \<^verbatim>\<open>while True\<close> loop of \<^verbatim>\<open>learn\<close>, on the batch the queue
  delivers.\<close>

definition learn_iter ::
  "('w, 'o, 'obs) network \<Rightarrow> config \<Rightarrow> 'obs batch \<Rightarrow> ('w, 'o) learner
     \<Rightarrow> error + ('w, 'o) learner" where
  "learn_iter net c b l =
     bindE (if double_dqn c then
              bindE (py_mod (steps l) (target_update_freq c)) (\<lambda>r.
                if r = 0 then update_target_network (agent_of l) else Inr (agent_of l))
            else Inr (agent_of l)) (\<lambda>s1.
     bindE (get_current_eps c (steps l)) (\<lambda>eps.
     bindE (optimize net c (s1\<lparr>current_eps := eps\<rparr>) b) (\<lambda>(loss, s2).
       let loss_sum1 = fp_add fround64 (loss_sum l) loss;
           steps1 = steps l + 1
       in
       bindE (case save_model_dir c of
                None \<Rightarrow> Inr (saved l)
              | Some dir \<Rightarrow>
                  if dir = [] then Inr (saved l)
                  else bindE (py_mod steps1 (save_model_freq c)) (\<lambda>r.
                         if r = 0
                         then Inr (saved l @
                                [(path_join dir (''agent.model-'' @ str_int steps1), q_network s2)])
                         else Inr (saved l))) (\<lambda>saved1.
       bindE (py_mod steps1 (print_freq c)) (\<lambda>r.
         if r = 0
         then bindE (py_float (print_freq c)) (\<lambda>freq.
              bindE (float_truediv loss_sum1 freq) (\<lambda>mean_loss.
                Inr \<lparr> agent_of = s2, steps = steps1, loss_sum = Finite 0, saved = saved1,
                      printed = printed l @ [(steps1, current_eps s2, mean_loss)] \<rparr>))
         else Inr \<lparr> agent_of = s2, steps = steps1, loss_sum = loss_sum1, saved = saved1,
                    printed = printed l \<rparr>)))))"

text \<open>The loop on the batches the queue delivers, in order; when they are used up the
  learner waits in \<^verbatim>\<open>get\<close>, in the state returned.\<close>

fun learn_loop ::
  "('w, 'o, 'obs) network \<Rightarrow> config \<Rightarrow> 'obs batch list \<Rightarrow> ('w, 'o) learner
     \<Rightarrow> error + ('w, 'o) learner" where
  "learn_loop net c [] l = Inr l"
| "learn_loop net c (b # bs) l = bindE (learn_iter net c b l) (learn_loop net c bs)"

section \<open>The actor worker\<close>

text \<open>The environment is external: \<open>reset\<close> and \<open>env_step\<close> are \<^verbatim>\<open>env.reset()\<close> and
  \<^verbatim>\<open>env.step(action)\<close> on the state of the environment; a step gives the next
  observation, the reward and the flag \<^verbatim>\<open>done\<close>.\<close>

record ('env, 'obs) environment =
  reset :: "'env \<Rightarrow> 'env \<times> 'obs"
  env_step :: "'env \<Rightarrow> int \<Rightarrow> 'env \<times> 'obs \<times> fp \<times> bool"

text \<open>The locals of \<^verbatim>\<open>actor_worker\<close>: the environment, \<^verbatim>\<open>observation\<close>,
  \<^verbatim>\<open>episode_id\<close>, \<^verbatim>\<open>cum_return\<close>, and the mode flag of the worker's own copy of the
  module (the weights are shared with the learner, the flag is not).\<close>

record ('env, 'obs) actor =
  env :: 'env
  actor_observation :: 'obs
  episode_id :: int
  cum_return :: fp
  actor_training :: bool

text \<open>Python's \<^verbatim>\<open>a >= b\<close> on floats: false when an operand is NaN.\<close>

definition fp_ge :: "fp \<Rightarrow> fp \<Rightarrow> bool" where
  "fp_ge a b = (fp_less b a \<or> (a = b \<and> a \<noteq> NaN))"

text \<open>The inner \<^verbatim>\<open>act(observation, eps)\<close>: \<open>u\<close> is the draw of
  \<^verbatim>\<open>random.uniform(0, 1)\<close> and \<open>sampled\<close> that of \<^verbatim>\<open>action_space.sample()\<close>. The
  result is the action and the mode flag of the worker's module.\<close>

definition act ::
  "('w, 'o, 'obs) network \<Rightarrow> config \<Rightarrow> 'w \<Rightarrow> bool \<Rightarrow> 'obs \<Rightarrow> fp \<Rightarrow> fp \<Rightarrow> int
     \<Rightarrow> error + int \<times> bool" where
  "act net c w training obs eps u sampled =
     (if fp_ge u eps then
        (let training1 = (if allow_eval_mode c then False else training) in
         bindE (max_dim1 (forward net w training1 [obs])) (\<lambda>m.
           case m of [] \<Rightarrow> Inl IndexError | p # _ \<Rightarrow> Inr (int (snd p), training1)))
      else Inr (sampled, training))"

text \<open>The lines of \<^verbatim>\<open>actor_worker\<close> up to the first turn of its inner loop: the
  environment is created and reset.\<close>

definition actor_start ::
  "('env, 'obs) environment \<Rightarrow> 'env \<Rightarrow> bool \<Rightarrow> ('env, 'obs) actor" where
  "actor_start world env0 training =
     (let (env1, obs) = reset world env0
      in \<lparr> env = env1, actor_observation = obs, episode_id = 0, cum_return = Finite 0,
           actor_training = training \<rparr>)"

text \<open>One turn of the inner loop of \<^verbatim>\<open>actor_worker\<close>, with the end of the episode when
  the step returns \<^verbatim>\<open>done\<close>. The worker holds the shared weights and the shared
  epsilon of the agent \<open>s\<close>; the turn returns the agent as the worker leaves it, the
  worker's locals and the transition put on the queue (a full queue, where \<^verbatim>\<open>put\<close>
  blocks, is not modelled; the line printed at the end of an episode, which reads the
  epsilon, is left out).\<close>

definition actor_step ::
  "('env, 'obs) environment \<Rightarrow> ('w, 'o, 'obs) network \<Rightarrow> config \<Rightarrow> fp \<Rightarrow> int
     \<Rightarrow> ('w, 'o) agent \<Rightarrow> ('env, 'obs) actor
     \<Rightarrow> error + ('w, 'o) agent \<times> ('env, 'obs) actor \<times> 'obs transition" where
  "actor_step world net c u sampled s a =
     bindE (act net c (q_network s) (actor_training a) (actor_observation a) (current_eps s)
              u sampled) (\<lambda>(chosen, training1).
       let (env1, next_obs, r, finished) = env_step world (env a) chosen;
           t = \<lparr> observation = actor_observation a, action = chosen, reward = r,
                 next_observation = next_obs, done_flag = finished \<rparr>;
           total = fp_add fround64 (cum_return a) r
       in if finished
          then (let (env2, obs) = reset world env1
                in Inr (s, \<lparr> env = env2, actor_observation = obs,
                              episode_id = episode_id a + 1, cum_return = Finite 0,
                              actor_training = training1 \<rparr>, t))
          else Inr (s, \<lparr> env = env1, actor_observation = next_obs,
                         episode_id = episode_id a, cum_return = total,
                         actor_training = training1 \<rparr>, t))"

text \<open>The turns of the worker for a list of draws, one pair \<open>(u, sampled)\<close> a turn, with
  the transitions put on the queue, in order.\<close>

fun actor_loop ::
  "('env, 'obs) environment \<Rightarrow> ('w, 'o, 'obs) network \<Rightarrow> config \<Rightarrow> (fp \<times> int) list
     \<Rightarrow> ('w, 'o) agent \<Rightarrow> ('env, 'obs) actor
     \<Rightarrow> error + ('w, 'o) agent \<times> ('env, 'obs) actor \<times> 'obs transition list" where
  "actor_loop world net c [] s a = Inr (s, a, [])"
| "actor_loop world net c (draw # draws) s a =
     bindE (actor_step world net c (fst draw) (snd draw) s a) (\<lambda>(s1, a1, t).
       bindE (actor_loop world net c draws s1 a1) (\<lambda>(s2, a2, ts). Inr (s2, a2, t # ts)))"

section \<open>Replay shard and batch builder\<close>

text \<open>Modelled from the spec: \<^verbatim>\<open>ReplayMemory\<close> of \<^verbatim>\<open>agents/memory.py\<close>, which is not among
  the sources. A shard has a capacity, a buffer and a write cursor; its count is the
  length of the buffer. While the count is below the capacity an insertion appends;
  afterwards it overwrites the slot under the cursor, which then advances circularly.
  The spec gives no behaviour for a capacity below one; pushing into such a shard is an
  error here.\<close>

record 'obs replay_memory =
  capacity :: int
  buffer :: "'obs transition list"
  write_cursor :: nat

definition len_memory :: "'obs replay_memory \<Rightarrow> int" where
  "len_memory m = int (length (buffer m))"

definition push :: "'obs replay_memory \<Rightarrow> 'obs transition \<Rightarrow> error + 'obs replay_memory" where
  "push m t =
     (if capacity m < 1 then Inl IndexError
      else if len_memory m < capacity m
      then Inr (m\<lparr>buffer := buffer m @ [t],
                 write_cursor := (write_cursor m + 1) mod nat (capacity m)\<rparr>)
      else Inr (m\<lparr>buffer := (buffer m)[write_cursor m := t],
                 write_cursor := (write_cursor m + 1) mod nat (capacity m)\<rparr>))"

text \<open>Modelled from the spec: sampling draws \<open>k\<close> indices with replacement from
  \<open>[0, count)\<close> and requires \<open>count \<ge> k\<close>; with fewer transitions than requested it is
  an assertion failure. \<open>rnd i\<close> is the \<open>i\<close>-th random draw.\<close>

definition sample ::
  "'obs replay_memory \<Rightarrow> int \<Rightarrow> (nat \<Rightarrow> nat) \<Rightarrow> error + 'obs transition list" where
  "sample m k rnd =
     (if len_memory m < k then Inl AssertionError
      else Inr (map (\<lambda>i. buffer m ! (rnd i mod length (buffer m))) [0..<nat k]))"

text \<open>\<^verbatim>\<open>self._num_threads = 8\<close>.\<close>

definition num_threads :: int where
  "num_threads = 8"

text \<open>The locals of \<^verbatim>\<open>_prepare_batch\<close>: the shard, \<^verbatim>\<open>steps\<close> (here \<open>builder_steps\<close>) and
  the one of \<^verbatim>\<open>steps_per_frame\<close> and \<^verbatim>\<open>frames_per_step\<close> that the frame-step ratio
  selects (the other is never read and is \<open>0\<close> here).\<close>

record 'obs builder =
  memory :: "'obs replay_memory"
  builder_steps :: int
  steps_per_frame :: int
  frames_per_step :: int

text \<open>The lines of \<^verbatim>\<open>_prepare_batch\<close> before its loop.\<close>

definition prepare_batch_setup :: "config \<Rightarrow> error + 'obs builder" where
  "prepare_batch_setup c =
     (let m = \<lparr> capacity = py_int (real_of_int (memory_size c) / real_of_int num_threads),
                buffer = [], write_cursor = 0 \<rparr>
      in if frame_step_ratio c < 1
         then bindE (py_truediv 1 (frame_step_ratio c)) (\<lambda>x.
                Inr \<lparr> memory = m, builder_steps = 0,
                      steps_per_frame = py_int x, frames_per_step = 0 \<rparr>)
         else Inr \<lparr> memory = m, builder_steps = 0,
                    steps_per_frame = 0, frames_per_step = py_int (frame_step_ratio c) \<rparr>)"

text \<open>What one turn of the builder's loop does: it waits in \<^verbatim>\<open>get\<close> on an empty
  transition queue, skips the batch during warmup, or puts a batch.\<close>

datatype 'obs outcome = Blocked | Warmup | Produced "'obs batch"

text \<open>\<open>drain n\<close>: \<open>n\<close> times \<^verbatim>\<open>memory.push(*(self._transition_queue.get()))\<close>. The queue
  is the list of the transitions the actors have put; the flag tells that the queue ran
  empty, where \<^verbatim>\<open>get\<close> blocks.\<close>

fun drain ::
  "nat \<Rightarrow> 'obs replay_memory \<Rightarrow> 'obs transition list
     \<Rightarrow> error + 'obs replay_memory \<times> 'obs transition list \<times> bool" where
  "drain 0 m queue = Inr (m, queue, False)"
| "drain (Suc n) m [] = Inr (m, [], True)"
| "drain (Suc n) m (t # queue) = bindE (push m t) (\<lambda>m1. drain n m1 queue)"

text \<open>One turn of the \<^verbatim>\<open>while True\<close> loop of \<^verbatim>\<open>_prepare_batch\<close>; \<open>c\<close> is the
  configuration as the constructor stored it.\<close>

definition prepare_batch_iter ::
  "config \<Rightarrow> (nat \<Rightarrow> nat) \<Rightarrow> 'obs builder \<Rightarrow> 'obs transition list
     \<Rightarrow> error + 'obs builder \<times> 'obs transition list \<times> 'obs outcome" where
  "prepare_batch_iter c rnd bd queue =
     (let steps1 = builder_steps bd + 1 in
      bindE (if frame_step_ratio c < 1 then
               bindE (py_mod steps1 (steps_per_frame bd)) (\<lambda>r.
                 if r = 0 then drain 1 (memory bd) queue
                 else Inr (memory bd, queue, False))
             else drain (nat (frames_per_step bd)) (memory bd) queue)
        (\<lambda>(m, queue1, blocked).
           let bd1 = bd\<lparr>memory := m, builder_steps := steps1\<rparr> in
           if blocked then Inr (bd1, queue1, Blocked)
           else if real_of_int (len_memory m)
                     < real_of_int (init_memory_size c) / real_of_int num_threads
           then Inr (bd1, queue1, Warmup)
           else bindE (sample m (batch_size c) rnd) (\<lambda>transitions.
                bindE (transitions_to_batch transitions) (\<lambda>b.
                  Inr (bd1, queue1, Produced b)))))"

text \<open>At most \<open>n\<close> turns of the builder's loop, up to the turn that blocks; the batches
  put are collected in order. \<open>rnd k\<close> is the random source of the turn with \<open>k\<close>
  turns left.\<close>

fun prepare_batch_loop ::
  "nat \<Rightarrow> config \<Rightarrow> (nat \<Rightarrow> nat \<Rightarrow> nat) \<Rightarrow> 'obs builder \<Rightarrow> 'obs transition list
     \<Rightarrow> error + 'obs builder \<times> 'obs transition list \<times> 'obs batch list" where
  "prepare_batch_loop 0 c rnd bd queue = Inr (bd, queue, [])"
| "prepare_batch_loop (Suc n) c rnd bd queue =
     bindE (prepare_batch_iter c (rnd n) bd queue) (\<lambda>(bd1, queue1, out).
       case out of
         Blocked \<Rightarrow> Inr (bd1, queue1, [])
       | Warmup \<Rightarrow> prepare_batch_loop n c rnd bd1 queue1
       | Produced b \<Rightarrow>
           bindE (prepare_batch_loop n c rnd bd1 queue1) (\<lambda>(bd2, queue2, bs).
             Inr (bd2, queue2, b # bs)))"

section \<open>The deprecated agent\<close>

text \<open>The attributes of \<^verbatim>\<open>deprecated/agents/fast_dqn_agent.py\<close>'s agent that its training
  loop reads and writes, with the loop's \<^verbatim>\<open>loss_sum\<close> and the files written. The prefix
  \<open>d_\<close> keeps them apart from the attributes of the current agent.\<close>

record 'w deprecated_agent =
  d_q_network :: 'w
  d_target_q_network :: 'w
  epsilon :: real
  epsilon_min :: real
  epsilon_decrease :: real
  d_steps :: int
  d_target_update_freq :: int
  d_save_model_dir :: "string option"
  d_save_model_freq :: int
  d_print_freq :: int
  d_loss_sum :: real
  d_saved :: "(string \<times> 'w) list"

text \<open>The deprecated constructor: \<^verbatim>\<open>_epsilon = Value('d', epsilon_max)\<close>,
  \<^verbatim>\<open>_epsilon_decrease = (epsilon_max - epsilon_min) / epsilon_decrease_steps\<close>, and
  \<^verbatim>\<open>_steps\<close> read from the name of the checkpoint loaded.\<close>

definition deprecated_init ::
  "(string \<Rightarrow> 'w option) \<Rightarrow> 'w \<Rightarrow> real \<Rightarrow> real \<Rightarrow> real \<Rightarrow> int \<Rightarrow> string option \<Rightarrow> int \<Rightarrow> int
     \<Rightarrow> string option \<Rightarrow> error + 'w deprecated_agent" where
  "deprecated_init fs weights epsilon_max eps_min epsilon_decrease_steps target_freq
       save_dir save_freq log_freq init_model_path =
     bindE (py_truediv (epsilon_max - eps_min) epsilon_decrease_steps) (\<lambda>decrease.
     bindE (case init_model_path of
              None \<Rightarrow> Inr (weights, 0)
            | Some path \<Rightarrow>
                if path = [] then Inr (weights, 0)
                else (case fs path of
                        None \<Rightarrow> Inl FileNotFoundError
                      | Some w \<Rightarrow>
                          bindE (int_of_str (drop (nat (rfind path CHR ''-'' + 1)) path))
                            (\<lambda>n. Inr (w, n)))) (\<lambda>(w, n).
       Inr \<lparr> d_q_network = w, d_target_q_network = w, epsilon = epsilon_max,
             epsilon_min = eps_min, epsilon_decrease = decrease, d_steps = n,
             d_target_update_freq = target_freq, d_save_model_dir = save_dir,
             d_save_model_freq = save_freq, d_print_freq = log_freq,
             d_loss_sum = 0, d_saved = [] \<rparr>))"

text \<open>Lines 148 and 149 of the deprecated \<^verbatim>\<open>train\<close>: the check and the subtraction.\<close>

definition decrease_epsilon :: "'w deprecated_agent \<Rightarrow> 'w deprecated_agent" where
  "decrease_epsilon s =
     (if epsilon s > epsilon_min s then s\<lparr>epsilon := epsilon s - epsilon_decrease s\<rparr> else s)"

text \<open>One turn of the deprecated \<^verbatim>\<open>train\<close> loop. \<open>update\<close> stands for \<^verbatim>\<open>_update\<close>: from
  the value weights, the target weights and the batch to the loss and the new value
  weights (it also adds one to \<^verbatim>\<open>_steps\<close>). \<^verbatim>\<open>os.path.join\<close> on a directory that is
  \<^verbatim>\<open>None\<close> is a \<open>TypeError\<close>.\<close>

definition train_iter ::
  "('w \<Rightarrow> 'w \<Rightarrow> 'b \<Rightarrow> real \<times> 'w) \<Rightarrow> 'b \<Rightarrow> 'w deprecated_agent \<Rightarrow> error + 'w deprecated_agent" where
  "train_iter update b s =
     bindE (py_mod (d_steps s) (d_target_update_freq s)) (\<lambda>r.
       let s1 = (if r = 0 then s\<lparr>d_target_q_network := d_q_network s\<rparr> else s);
           s2 = decrease_epsilon s1;
           (loss, w) = update (d_q_network s2) (d_target_q_network s2) b;
           s3 = s2\<lparr>d_q_network := w, d_steps := d_steps s2 + 1,
                   d_loss_sum := d_loss_sum s2 + loss\<rparr>
       in
       bindE (py_mod (d_steps s3) (d_save_model_freq s3)) (\<lambda>r.
       bindE (if r = 0 then
                (case d_save_model_dir s3 of
                   None \<Rightarrow> Inl TypeError
                 | Some dir \<Rightarrow>
                     Inr (s3\<lparr>d_saved := d_saved s3 @
                            [(path_join dir (''agent.model-'' @ str_int (d_steps s3)),
                              d_q_network s3)]\<rparr>))
              else Inr s3) (\<lambda>s4.
       bindE (py_mod (d_steps s4) (d_print_freq s4)) (\<lambda>r.
         if r = 0 then Inr (s4\<lparr>d_loss_sum := 0\<rparr>) else Inr s4))))"

fun train_loop ::
  "('w \<Rightarrow> 'w \<Rightarrow> 'b \<Rightarrow> real \<times> 'w) \<Rightarrow> 'b list \<Rightarrow> 'w deprecated_agent \<Rightarrow> error + 'w deprecated_agent" where
  "train_loop update [] s = Inr s"
| "train_loop update (b # bs) s = bindE (train_iter update b s) (train_loop update bs)"

section \<open>A configuration for the scenarios\<close>

text \<open>The configuration of the spec's end-to-end scenarios: the linear schedule from
  \<open>1.0\<close> to \<open>0.1\<close> over \<open>100\<close> steps, discount \<open>0.9\<close>, double DQN off. A decimal
  literal of Python is the float nearest to it.\<close>

definition scenario_config :: config where
  "scenario_config =
     \<lparr> batch_size = 32, discount = fround64 (9 / 10), eps_method = ''linear'',
       eps_start = Finite 1, eps_end = fround64 (1 / 10), eps_decay = Finite 100,
       memory_size = 800, init_memory_size = 32, frame_step_ratio = 1,
       gradient_clipping = 1, double_dqn = False, target_update_freq = 2,
       allow_eval_mode = True, loss_type = ''mse'', save_model_dir = Some ''ckpt'',
       save_model_freq = 2, print_freq = 2 \<rparr>"


text \<open>A network on observations that are single binary32 numbers, with one real weight
  \<open>w\<close> and two actions, whose values on the observation \<open>x\<close> are \<open>w * x\<close> and \<open>w + x\<close>
  in binary32; a gradient step that adds one to the weight; losses that depend on the size
  of the batch only; an agent with that network; and a terminal transition with reward
  \<open>1.0\<close>.\<close>

definition scenario_network :: "(real, unit, fp) network" where
  "scenario_network =
     \<lparr> forward = (\<lambda>w training xs.
                    map (\<lambda>x. [fp_mul fround32 (Finite w) x, fp_add fround32 (Finite w) x]) xs),
       gradient_step = (\<lambda>w opt obs acts target kind clip. (w + 1, opt)),
       mse_value = (\<lambda>q t. Finite (real (length q))),
       smooth_l1_value = (\<lambda>q t. Finite (real (length q) / 2)) \<rparr>"

definition scenario_agent :: "(real, unit) agent" where
  "scenario_agent =
     \<lparr> q_network = 1, q_training = True, target_q_network = Some 3, target_training = False,
       optimizer = (), current_eps = Finite 1, episode_idx = 0 \<rparr>"

definition scenario_transition :: "fp transition" where
  "scenario_transition =
     \<lparr> observation = Finite 0, action = 0, reward = Finite 1, next_observation = Finite 2,
       done_flag = True \<rparr>"

text \<open>A batch of that one transition, a file system with one checkpoint, a stand-in for
  the deprecated \<^verbatim>\<open>_update\<close>, a transition queue holding four transitions, and an
  environment whose state counts the steps of an episode that ends at the second.\<close>

definition scenario_batch :: "fp batch" where
  "scenario_batch =
     \<lparr> next_obs_batch = [Finite 2], obs_batch = [Finite 0], reward_batch = [Finite 1],
       action_batch = [0], done_batch = [Finite 1] \<rparr>"

definition scenario_fs :: "string \<Rightarrow> real option" where
  "scenario_fs path = (if path = ''ckpt/agent.model-2'' then Some 1 else None)"

definition scenario_update :: "real \<Rightarrow> real \<Rightarrow> unit \<Rightarrow> real \<times> real" where
  "scenario_update w target b = (1, w + 1)"

definition scenario_queue :: "fp transition list" where
  "scenario_queue =
     [scenario_transition, scenario_transition, scenario_transition, scenario_transition]"

definition scenario_world :: "(int, fp) environment" where
  "scenario_world =
     \<lparr> reset = (\<lambda>k. (0, Finite 0)),
       env_step = (\<lambda>k chosen. (k + 1, Finite 2, Finite 1, k = 1)) \<rparr>"

section \<open>Properties of rounding\<close>

lemma floor_log2_eqI:
  assumes "2 powi e \<le> \<bar>x\<bar>" and "\<bar>x\<bar> < 2 powi (e + 1)"
  shows "\<lfloor>log 2 \<bar>x\<bar>\<rfloor> = e"
proof -
  have "(0 :: real) < 2 powi e" by (rule zero_less_power_int) simp
  with assms(1) have pos: "0 < \<bar>x\<bar>" by linarith
  have a: "(2 :: real) powr real_of_int e = 2 powi e"
    by (rule powr_real_of_int') simp_all
  have "(2 :: real) powr real_of_int (e + 1) = 2 powi (e + 1)"
    by (rule powr_real_of_int') simp_all
  then have b: "(2 :: real) powr (real_of_int e + 1) = 2 powi (e + 1)" by simp
  have "2 powr real_of_int e \<le> \<bar>x\<bar> \<and> \<bar>x\<bar> < 2 powr (real_of_int e + 1)"
    using assms by (simp only: a b)
  then show ?thesis using pos floor_log_eq_powr_iff [of "\<bar>x\<bar>" 2 e] by simp
qed

lemma round_real_eqI:
  assumes "2 powi e \<le> \<bar>x\<bar>" and "\<bar>x\<bar> < 2 powi (e + 1)"
    and "u = max (e - (int p - 1)) (1 - emx - (int p - 1))"
    and "round_half_even (x / 2 powi u) = n"
  shows "round_real p emx x = real_of_int n * 2 powi u"
proof -
  have "(0 :: real) < 2 powi e" by (rule zero_less_power_int) simp
  with assms(1) have "0 < \<bar>x\<bar>" by linarith
  then have "x \<noteq> 0" by simp
  moreover have "ulp_exp p emx x = u"
    using floor_log2_eqI [OF assms(1,2)] assms(3) by (simp add: ulp_exp_def)
  ultimately show ?thesis using assms(4) by (simp add: round_real_def)
qed

lemma max_finite64_ge: "1000000000 \<le> max_finite 53 1023"
proof -
  have "(1 :: real) \<le> 2 - 2 powi (1 - int 53)" by (simp add: power_int_minus_divide)
  moreover have "(1000000000 :: real) \<le> 2 powi 1023" by simp
  ultimately have "(1000000000 :: real) * 1 \<le> 2 powi 1023 * (2 - 2 powi (1 - int 53))"
    by (intro mult_mono) simp_all
  then show ?thesis by (simp add: max_finite_def mult.commute)
qed

lemma max_finite32_ge: "1000000000 \<le> max_finite 24 127"
proof -
  have "(1 :: real) \<le> 2 - 2 powi (1 - int 24)" by (simp add: power_int_minus_divide)
  moreover have "(1000000000 :: real) \<le> 2 powi 127" by simp
  ultimately have "(1000000000 :: real) * 1 \<le> 2 powi 127 * (2 - 2 powi (1 - int 24))"
    by (intro mult_mono) simp_all
  then show ?thesis by (simp add: max_finite_def mult.commute)
qed

lemma fround64_eqI:
  assumes "2 powi e \<le> \<bar>x\<bar>" and "\<bar>x\<bar> < 2 powi (e + 1)"
    and "u = max (e - 52) (- 1074)"
    and "round_half_even (x / 2 powi u) = n"
    and "r = real_of_int n * 2 powi u"
    and "\<bar>r\<bar> \<le> 1000000000"
  shows "fround64 x = Finite r"
proof -
  have "round_real 53 1023 x = r"
    using round_real_eqI [OF assms(1,2), of u 53 1023 n] assms(3,4,5) by simp
  moreover from assms(6) have "- 1000000000 \<le> r \<and> r \<le> 1000000000" by (simp add: abs_le_iff)
  with max_finite64_ge have "\<not> max_finite 53 1023 < r \<and> \<not> r < - max_finite 53 1023" by linarith
  ultimately show ?thesis by (simp add: fround64_def fround_def Let_def)
qed

lemma fround32_eqI:
  assumes "2 powi e \<le> \<bar>x\<bar>" and "\<bar>x\<bar> < 2 powi (e + 1)"
    and "u = max (e - 23) (- 149)"
    and "round_half_even (x / 2 powi u) = n"
    and "r = real_of_int n * 2 powi u"
    and "\<bar>r\<bar> \<le> 1000000000"
  shows "fround32 x = Finite r"
proof -
  have "round_real 24 127 x = r"
    using round_real_eqI [OF assms(1,2), of u 24 127 n] assms(3,4,5) by simp
  moreover from assms(6) have "- 1000000000 \<le> r \<and> r \<le> 1000000000" by (simp add: abs_le_iff)
  with max_finite32_ge have "\<not> max_finite 24 127 < r \<and> \<not> r < - max_finite 24 127" by linarith
  ultimately show ?thesis by (simp add: fround32_def fround_def Let_def)
qed

lemma fround64_0 [simp]: "fround64 0 = Finite 0"
  using max_finite64_ge by (simp add: fround64_def fround_def round_real_def)

lemma fround32_0 [simp]: "fround32 0 = Finite 0"
  using max_finite32_ge by (simp add: fround32_def fround_def round_real_def)

lemma two_powi_pos: "(0 :: real) < 2 powi k"
  by (rule zero_less_power_int) simp

lemma two_powi_mono: "k \<le> l \<Longrightarrow> (2 :: real) powi k \<le> 2 powi l"
  by (rule power_int_increasing) simp_all

lemma round_half_even_near: "\<bar>real_of_int (round_half_even y) - y\<bar> \<le> 1 / 2"
proof -
  have "real_of_int \<lfloor>y\<rfloor> \<le> y" and "y < real_of_int \<lfloor>y\<rfloor> + 1" by linarith+
  then show ?thesis by (auto simp: round_half_even_def Let_def abs_le_iff)
qed

lemma round_half_even_of_int: "round_half_even (real_of_int k) = k"
  by (simp add: round_half_even_def)


lemma floor_log2_bounds:
  assumes "x \<noteq> 0"
  shows "2 powi \<lfloor>log 2 \<bar>x\<bar>\<rfloor> \<le> \<bar>x\<bar> \<and> \<bar>x\<bar> < 2 powi (\<lfloor>log 2 \<bar>x\<bar>\<rfloor> + 1)"
proof -
  define e where "e = \<lfloor>log 2 \<bar>x\<bar>\<rfloor>"
  have a: "(2 :: real) powr real_of_int e = 2 powi e"
    by (rule powr_real_of_int') simp_all
  have "(2 :: real) powr real_of_int (e + 1) = 2 powi (e + 1)"
    by (rule powr_real_of_int') simp_all
  then have b: "(2 :: real) powr (real_of_int e + 1) = 2 powi (e + 1)" by simp
  from assms have "0 < \<bar>x\<bar>" by simp
  then have "2 powr real_of_int e \<le> \<bar>x\<bar> \<and> \<bar>x\<bar> < 2 powr (real_of_int e + 1)"
    using floor_log_eq_powr_iff [of "\<bar>x\<bar>" 2 e] by (simp add: e_def)
  then have "2 powi e \<le> \<bar>x\<bar> \<and> \<bar>x\<bar> < 2 powi (e + 1)" by (simp only: a b)
  then show ?thesis by (simp only: e_def)
qed


lemma floor_log2_less:
  assumes "x \<noteq> 0" and "\<bar>x\<bar> < 2 powi k"
  shows "\<lfloor>log 2 \<bar>x\<bar>\<rfloor> < k"
proof (rule ccontr)
  assume "\<not> \<lfloor>log 2 \<bar>x\<bar>\<rfloor> < k"
  then have "k \<le> \<lfloor>log 2 \<bar>x\<bar>\<rfloor>" by simp
  then have "(2 :: real) powi k \<le> 2 powi \<lfloor>log 2 \<bar>x\<bar>\<rfloor>" by (rule two_powi_mono)
  then show False using floor_log2_bounds [OF assms(1)] assms(2) by linarith
qed

lemma round_real_unfold:
  "x \<noteq> 0 \<Longrightarrow>
   round_real p emx x
     = real_of_int (round_half_even (x / 2 powi ulp_exp p emx x)) * 2 powi ulp_exp p emx x"
  by (simp add: round_real_def)









lemma abs_near_bound:
  fixes a y b :: real
  shows "\<bar>a - y\<bar> \<le> 1 / 2 \<Longrightarrow> \<bar>y\<bar> < b \<Longrightarrow> \<bar>a\<bar> < b + 1"
  by linarith

lemma round_half_even_bound:
  assumes "\<bar>y\<bar> < 2 ^ p"
  shows "\<bar>round_half_even y\<bar> \<le> 2 ^ p"
proof -
  have "\<bar>real_of_int (round_half_even y)\<bar> < 2 ^ p + 1"
    by (rule abs_near_bound [OF round_half_even_near assms])
  then have "real_of_int \<bar>round_half_even y\<bar> < real_of_int (2 ^ p + 1)" by simp
  then have "\<bar>round_half_even y\<bar> < 2 ^ p + 1" by (simp only: of_int_less_iff)
  then show ?thesis by simp
qed

lemma two_powi_add_nat: "(2 :: real) powi (k + int d) = 2 powi k * 2 ^ d"
  by (simp add: power_int_add)

lemma round_real_idem:
  assumes "1 \<le> p"
  shows "round_real p emx (round_real p emx x) = round_real p emx x"
proof (cases "round_real p emx x = 0")
  case True
  then show ?thesis by (simp add: round_real_def)
next
  case False
  define r where "r = round_real p emx x"
  define u where "u = ulp_exp p emx x"
  define n where "n = round_half_even (x / 2 powi u)"
  define m where "m = 1 - emx - (int p - 1)"
  define u' where "u' = ulp_exp p emx r"
  define e' where "e' = \<lfloor>log 2 \<bar>r\<bar>\<rfloor>"
  have xnz: "x \<noteq> 0" using False by (auto simp: round_real_def)
  have rnz: "r \<noteq> 0" using False by (simp add: r_def)
  have r: "r = real_of_int n * 2 powi u"
    by (simp add: r_def round_real_unfold [OF xnz] u_def n_def)
  have um: "m \<le> u" unfolding u_def ulp_exp_def m_def by linarith
  have ue: "\<lfloor>log 2 \<bar>x\<bar>\<rfloor> + 1 \<le> u + int p" unfolding u_def ulp_exp_def by linarith
  have split: "(2 :: real) powi (u + int p) = 2 powi u * 2 ^ p"
    by (rule two_powi_add_nat)
  have "\<bar>x\<bar> < 2 powi (u + int p)"
    using floor_log2_bounds [OF xnz] two_powi_mono [OF ue] by linarith
  then have "\<bar>x\<bar> / 2 powi u < 2 ^ p"
    using two_powi_pos [of u] by (simp add: split field_simps)
  moreover have "\<bar>x / 2 powi u\<bar> = \<bar>x\<bar> / \<bar>2 powi u\<bar>" by (rule abs_divide)
  moreover have "\<bar>(2 :: real) powi u\<bar> = 2 powi u" by (rule abs_of_pos [OF two_powi_pos])
  ultimately have "\<bar>x / 2 powi u\<bar> < 2 ^ p" by (simp only:)
  then have nb: "\<bar>n\<bar> \<le> 2 ^ p" unfolding n_def by (rule round_half_even_bound)
  have rabs: "\<bar>r\<bar> = real_of_int \<bar>n\<bar> * 2 powi u"
    using two_powi_pos [of u] by (simp add: r abs_mult)
  from nb have "real_of_int \<bar>n\<bar> \<le> real_of_int (2 ^ p)" by (simp only: of_int_le_iff)
  then have "real_of_int \<bar>n\<bar> * 2 powi u \<le> 2 ^ p * 2 powi u"
    using two_powi_pos [of u] by (intro mult_right_mono) simp_all
  then have rle: "\<bar>r\<bar> \<le> 2 powi (u + int p)" by (simp add: rabs split mult.commute)
  have "(2 :: real) powi (u + int p) < 2 powi (u + int p + 1)"
    by (rule power_int_strict_increasing) simp_all
  with rle have "\<bar>r\<bar> < 2 powi (u + int p + 1)" by linarith
  then have "e' < u + int p + 1" unfolding e'_def by (rule floor_log2_less [OF rnz])
  then have e'le: "e' \<le> u + int p" by simp
  have u'def: "u' = max (e' - (int p - 1)) m"
    by (simp only: u'_def ulp_exp_def e'_def m_def)
  have "\<exists>k. r = real_of_int k * 2 powi u'"
  proof (cases "e' < u + int p")
    case True
    then have "u' \<le> u" using um u'def by linarith
    then have d: "u = u' + int (nat (u - u'))" by simp
    have "(2 :: real) powi (u' + int (nat (u - u'))) = 2 powi u' * 2 ^ nat (u - u')"
      by (rule two_powi_add_nat)
    with d have "(2 :: real) powi u = 2 ^ nat (u - u') * 2 powi u'" by (simp add: mult.commute)
    then have "r = real_of_int (n * 2 ^ nat (u - u')) * 2 powi u'" by (simp add: r)
    then show ?thesis ..
  next
    case False
    then have e': "e' = u + int p" using e'le by simp
    have "2 powi e' \<le> \<bar>r\<bar>" using floor_log2_bounds [OF rnz] by (simp add: e'_def)
    then have "2 ^ p * 2 powi u \<le> real_of_int \<bar>n\<bar> * 2 powi u"
      by (simp add: e' split rabs mult.commute)
    then have "real_of_int (2 ^ p) \<le> real_of_int \<bar>n\<bar>" using two_powi_pos [of u] by simp
    then have "2 ^ p \<le> \<bar>n\<bar>" by (simp only: of_int_le_iff)
    with nb have "\<bar>n\<bar> = 2 ^ p" by simp
    moreover from assms have "even ((2 :: int) ^ p)" by simp
    ultimately have "even \<bar>n\<bar>" by simp
    then have "even n" by simp
    then obtain k where k: "n = 2 * k" by (auto elim: evenE)
    have u': "u' = u + 1" using u'def e' um by linarith
    have "(2 :: real) powi (u + 1) = 2 powi u * 2" by (simp add: power_int_add)
    then have "r = real_of_int k * 2 powi u'" by (simp add: r k u')
    then show ?thesis ..
  qed
  then obtain k where k: "r = real_of_int k * 2 powi u'" ..
  have "r / 2 powi u' = real_of_int k" using two_powi_pos [of u'] by (simp add: k)
  then have "round_half_even (r / 2 powi u') = k" by (simp only: round_half_even_of_int)
  then have "round_real p emx r = real_of_int k * 2 powi u'"
    using rnz by (simp add: round_real_unfold u'_def)
  then show ?thesis using k by (simp add: r_def)
qed

lemma fround_idem:
  assumes "1 \<le> p" and "fround p emx x = Finite r"
  shows "fround p emx r = Finite r"
proof -
  from assms(2) have "r = round_real p emx x" and "\<not> max_finite p emx < r"
    and "\<not> r < - max_finite p emx"
    by (auto simp: fround_def Let_def split: if_splits)
  moreover from this(1) have "round_real p emx r = r" by (simp add: round_real_idem [OF assms(1)])
  ultimately show ?thesis by (simp add: fround_def Let_def)
qed


lemma fround32_idem: "fround32 x = Finite r \<Longrightarrow> fround32 r = Finite r"
  unfolding fround32_def by (rule fround_idem) simp_all

subsection \<open>The roundings of the scenarios\<close>

text \<open>The values to which the numbers of the scenarios round, each from its exponent and
  the integer \<open>n\<close> of its significand: \<open>double\<close> in binary64, \<open>single\<close> in binary32.\<close>

lemma double_1: "fround64 1 = Finite 1"
  by (rule fround64_eqI [where e = "0" and u = "- 52" and n = "4503599627370496"])
    (simp_all add: round_half_even_def power_int_minus_divide)

lemma double_2: "fround64 2 = Finite 2"
  by (rule fround64_eqI [where e = "1" and u = "- 51" and n = "4503599627370496"])
    (simp_all add: round_half_even_def power_int_minus_divide)

lemma double_tenth: "fround64 (1 / 10) = Finite (3602879701896397 / 36028797018963968)"
  by (rule fround64_eqI [where e = "- 4" and u = "- 56" and n = "7205759403792794"])
    (simp_all add: round_half_even_def power_int_minus_divide)

lemma double_nine_tenths: "fround64 (9 / 10) = Finite (8106479329266893 / 9007199254740992)"
  by (rule fround64_eqI [where e = "- 1" and u = "- 53" and n = "8106479329266893"])
    (simp_all add: round_half_even_def power_int_minus_divide)

lemma double_one_minus_tenth: "fround64 (32425917317067571 / 36028797018963968) = Finite (8106479329266893 / 9007199254740992)"
  by (rule fround64_eqI [where e = "- 1" and u = "- 53" and n = "8106479329266893"])
    (simp_all add: round_half_even_def power_int_minus_divide)

lemma double_nine_tenths_exact: "fround64 (8106479329266893 / 9007199254740992) = Finite (8106479329266893 / 9007199254740992)"
  by (rule fround64_eqI [where e = "- 1" and u = "- 53" and n = "8106479329266893"])
    (simp_all add: round_half_even_def power_int_minus_divide)

lemma double_step1_quotient: "fround64 (8106479329266893 / 900719925474099200) = Finite (1297036692682703 / 144115188075855872)"
  by (rule fround64_eqI [where e = "- 7" and u = "- 59" and n = "5188146770730812"])
    (simp_all add: round_half_even_def power_int_minus_divide)

lemma double_step1_eps: "fround64 (142818151383173169 / 144115188075855872) = Finite (8926134461448323 / 9007199254740992)"
  by (rule fround64_eqI [where e = "- 1" and u = "- 53" and n = "8926134461448323"])
    (simp_all add: round_half_even_def power_int_minus_divide)

lemma double_50: "fround64 50 = Finite 50"
  by (rule fround64_eqI [where e = "5" and u = "- 47" and n = "7036874417766400"])
    (simp_all add: round_half_even_def power_int_minus_divide)

lemma double_step50_product: "fround64 (202661983231672325 / 4503599627370496) = Finite 45"
  by (rule fround64_eqI [where e = "5" and u = "- 47" and n = "6333186975989760"])
    (simp_all add: round_half_even_def power_int_minus_divide)

lemma double_step50_quotient: "fround64 (9 / 20) = Finite (8106479329266893 / 18014398509481984)"
  by (rule fround64_eqI [where e = "- 2" and u = "- 54" and n = "8106479329266893"])
    (simp_all add: round_half_even_def power_int_minus_divide)

lemma double_step50_eps: "fround64 (9907919180215091 / 18014398509481984) = Finite (2476979795053773 / 4503599627370496)"
  by (rule fround64_eqI [where e = "- 1" and u = "- 53" and n = "4953959590107546"])
    (simp_all add: round_half_even_def power_int_minus_divide)

lemma double_55_hundredths: "fround64 (11 / 20) = Finite (2476979795053773 / 4503599627370496)"
  by (rule fround64_eqI [where e = "- 1" and u = "- 53" and n = "4953959590107546"])
    (simp_all add: round_half_even_def power_int_minus_divide)

lemma double_100: "fround64 100 = Finite 100"
  by (rule fround64_eqI [where e = "6" and u = "- 46" and n = "7036874417766400"])
    (simp_all add: round_half_even_def power_int_minus_divide)

lemma double_step100_product: "fround64 (202661983231672325 / 2251799813685248) = Finite 90"
  by (rule fround64_eqI [where e = "6" and u = "- 46" and n = "6333186975989760"])
    (simp_all add: round_half_even_def power_int_minus_divide)

lemma double_step100_eps: "fround64 (900719925474099 / 9007199254740992) = Finite (900719925474099 / 9007199254740992)"
  by (rule fround64_eqI [where e = "- 4" and u = "- 56" and n = "7205759403792792"])
    (simp_all add: round_half_even_def power_int_minus_divide)
















lemma single_1: "fround32 1 = Finite 1"
  by (rule fround32_eqI [where e = "0" and u = "- 23" and n = "8388608"])
    (simp_all add: round_half_even_def power_int_minus_divide)

lemma single_nine_tenths: "fround32 (8106479329266893 / 9007199254740992) = Finite (7549747 / 8388608)"
  by (rule fround32_eqI [where e = "- 1" and u = "- 24" and n = "15099494"])
    (simp_all add: round_half_even_def power_int_minus_divide)

lemma single_tenth: "fround32 (3602879701896397 / 36028797018963968) = Finite (13421773 / 134217728)"
  by (rule fround32_eqI [where e = "- 4" and u = "- 27" and n = "13421773"])
    (simp_all add: round_half_even_def power_int_minus_divide)

lemma single_2: "fround32 2 = Finite 2"
  by (rule fround32_eqI [where e = "1" and u = "- 22" and n = "8388608"])
    (simp_all add: round_half_even_def power_int_minus_divide)

lemma single_3: "fround32 3 = Finite 3"
  by (rule fround32_eqI [where e = "1" and u = "- 22" and n = "12582912"])
    (simp_all add: round_half_even_def power_int_minus_divide)

lemma single_4: "fround32 4 = Finite 4"
  by (rule fround32_eqI [where e = "2" and u = "- 21" and n = "8388608"])
    (simp_all add: round_half_even_def power_int_minus_divide)

lemma single_5: "fround32 5 = Finite 5"
  by (rule fround32_eqI [where e = "2" and u = "- 21" and n = "10485760"])
    (simp_all add: round_half_even_def power_int_minus_divide)

lemma single_6: "fround32 6 = Finite 6"
  by (rule fround32_eqI [where e = "2" and u = "- 21" and n = "12582912"])
    (simp_all add: round_half_even_def power_int_minus_divide)

lemma single_8: "fround32 8 = Finite 8"
  by (rule fround32_eqI [where e = "3" and u = "- 20" and n = "8388608"])
    (simp_all add: round_half_even_def power_int_minus_divide)

lemma single_15: "fround32 15 = Finite 15"
  by (rule fround32_eqI [where e = "3" and u = "- 20" and n = "15728640"])
    (simp_all add: round_half_even_def power_int_minus_divide)

section \<open>Properties of the epsilon schedule\<close>

lemma bindE_Inr_iff: "bindE m f = Inr y \<longleftrightarrow> (\<exists>x. m = Inr x \<and> f x = Inr y)"
  by (cases m) (simp_all add: bindE_def)


lemma bindE_Inr [simp]: "bindE (Inr x) f = f x"
  by (simp add: bindE_def)

lemma bindE_Inl [simp]: "bindE (Inl e) f = Inl e"
  by (simp add: bindE_def)


lemma py_float_0: "py_float 0 = Inr (Finite 0)"
  by (simp add: py_float_def)

lemmas schedule_eval =
  get_current_eps_def scenario_config_def int_less_float_def py_float_def float_truediv_def
  fp_sub_def fp_neg_def math_exp_def

lemma scenario_eps_0: "get_current_eps scenario_config 0 = Inr (Finite 1)"
  by (simp add: schedule_eval double_tenth double_one_minus_tenth double_1)

lemma scenario_eps_1:
  "get_current_eps scenario_config 1 = Inr (Finite (8926134461448323 / 9007199254740992))"
  by (simp add: schedule_eval double_tenth double_one_minus_tenth double_1 double_nine_tenths_exact double_step1_quotient double_step1_eps)

lemma scenario_eps_100:
  "get_current_eps scenario_config 100 = Inr (Finite (900719925474099 / 9007199254740992))"
  by (simp add: schedule_eval double_tenth double_one_minus_tenth double_100 double_step100_product double_nine_tenths double_step100_eps)

lemma scenario_eps_150:
  "get_current_eps scenario_config 150 = Inr (Finite (900719925474099 / 9007199254740992))"
  by (simp add: schedule_eval double_tenth double_one_minus_tenth double_100 double_step100_product double_nine_tenths double_step100_eps)










text \<open>
  C3, as stated, fails on Python's floats: from \<open>1.0\<close> to \<open>0.1\<close> over \<open>100\<close> steps the
  schedule returns \<open>0.09999999999999998\<close> at step \<open>100\<close> and at step \<open>150\<close>, not the
  float \<open>0.1\<close>: \<open>(1.0 - 0.1) * 100 / 100\<close> is \<open>0.9\<close> again, and \<open>1.0 - 0.9\<close> is below
  \<open>0.1\<close>.
\<close>

theorem linear_schedule_counterexample:
  "eps_method scenario_config = ''linear''
   \<and> eps_start scenario_config = Finite 1
   \<and> eps_end scenario_config = fround64 (1 / 10)
   \<and> eps_decay scenario_config = Finite 100
   \<and> get_current_eps scenario_config 100 = Inr (Finite (900719925474099 / 9007199254740992))
   \<and> get_current_eps scenario_config 150 = Inr (Finite (900719925474099 / 9007199254740992))
   \<and> fround64 (1 / 10) = Finite (3602879701896397 / 36028797018963968)
   \<and> get_current_eps scenario_config 100 \<noteq> Inr (eps_end scenario_config)
   \<and> get_current_eps scenario_config 150 \<noteq> Inr (fround64 (1 / 10))"
  by (simp add: scenario_eps_100 scenario_eps_150 double_tenth) (simp add: scenario_config_def double_tenth)

text \<open>
  C3, amended. The linear schedule computes
  \<open>eps_start - (eps_start - eps_end) * min(step, eps_decay) / eps_decay\<close> with every
  operation rounded: on the step before \<open>eps_decay\<close>, on \<open>eps_decay\<close> itself from there
  on, so that every step from \<open>eps_decay\<close> on gives the value of
  \<open>eps_start - (eps_start - eps_end) * eps_decay / eps_decay\<close>. For a positive \<open>eps_decay\<close>
  it is \<open>eps_start\<close> at step \<open>0\<close> (when \<open>eps_start\<close> is a float and the difference of
  the two bounds is finite). From \<open>1.0\<close> to \<open>0.1\<close> over \<open>100\<close> steps it is the float
  \<open>0.55\<close> at step \<open>50\<close>, and at steps \<open>100\<close> and \<open>150\<close> the float that is \<open>2\<close> to the
  power \<open>-55\<close> below \<open>eps_end\<close>.
\<close>

theorem linear_schedule:
  "(eps_method c = ''linear'' \<and> eps_decay c \<noteq> Finite 0 \<and> int_less_float step (eps_decay c)
      \<and> py_float step = Inr s \<longrightarrow>
      get_current_eps c step =
        Inr (fp_sub fround64 (eps_start c)
               (fp_div fround64
                  (fp_mul fround64 (fp_sub fround64 (eps_start c) (eps_end c)) s)
                  (eps_decay c))))
   \<and> (eps_method c = ''linear'' \<and> eps_decay c \<noteq> Finite 0
      \<and> \<not> int_less_float step (eps_decay c) \<longrightarrow>
      get_current_eps c step =
        Inr (fp_sub fround64 (eps_start c)
               (fp_div fround64
                  (fp_mul fround64 (fp_sub fround64 (eps_start c) (eps_end c)) (eps_decay c))
                  (eps_decay c))))
   \<and> (eps_method c = ''linear'' \<and> fp_less (Finite 0) (eps_decay c)
      \<and> eps_start c = Finite a \<and> fround64 a = Finite a
      \<and> fp_sub fround64 (eps_start c) (eps_end c) = Finite d \<longrightarrow>
      get_current_eps c 0 = Inr (eps_start c))
   \<and> (eps_method c = ''linear'' \<and> eps_start c = Finite 1 \<and> eps_end c = fround64 (1 / 10)
      \<and> eps_decay c = Finite 100 \<longrightarrow>
        get_current_eps c 50 = Inr (fround64 (55 / 100))
      \<and> get_current_eps c 100 = Inr (Finite (900719925474099 / 9007199254740992))
      \<and> get_current_eps c 150 = Inr (Finite (900719925474099 / 9007199254740992))
      \<and> eps_end c = Finite (900719925474099 / 9007199254740992 + 1 / 2 ^ 55))"
proof -
  have early: "get_current_eps c step =
        Inr (fp_sub fround64 (eps_start c)
               (fp_div fround64
                  (fp_mul fround64 (fp_sub fround64 (eps_start c) (eps_end c)) s)
                  (eps_decay c)))"
    if "eps_method c = ''linear''" and "eps_decay c \<noteq> Finite 0"
      and "int_less_float step (eps_decay c)" and "py_float step = Inr s"
    using that by (simp add: get_current_eps_def float_truediv_def)
  have late: "get_current_eps c step =
        Inr (fp_sub fround64 (eps_start c)
               (fp_div fround64
                  (fp_mul fround64 (fp_sub fround64 (eps_start c) (eps_end c)) (eps_decay c))
                  (eps_decay c)))"
    if "eps_method c = ''linear''" and "eps_decay c \<noteq> Finite 0"
      and "\<not> int_less_float step (eps_decay c)"
    using that by (simp add: get_current_eps_def float_truediv_def)
  have zero: "get_current_eps c 0 = Inr (eps_start c)"
    if "eps_method c = ''linear''" and "fp_less (Finite 0) (eps_decay c)"
      and "eps_start c = Finite a" and "fround64 a = Finite a"
      and "fp_sub fround64 (eps_start c) (eps_end c) = Finite d"
    using that
    by (cases "eps_decay c")
      (simp_all add: get_current_eps_def float_truediv_def int_less_float_def py_float_0
        fp_sub_def fp_neg_def)
  have scen: "get_current_eps c 50 = Inr (fround64 (55 / 100))
      \<and> get_current_eps c 100 = Inr (Finite (900719925474099 / 9007199254740992))
      \<and> get_current_eps c 150 = Inr (Finite (900719925474099 / 9007199254740992))
      \<and> eps_end c = Finite (900719925474099 / 9007199254740992 + 1 / 2 ^ 55)"
    if "eps_method c = ''linear''" and "eps_start c = Finite 1"
      and "eps_end c = fround64 (1 / 10)" and "eps_decay c = Finite 100"
    using that
    by (simp add: get_current_eps_def int_less_float_def py_float_def float_truediv_def
        fp_sub_def fp_neg_def double_tenth double_one_minus_tenth double_50 double_step50_product double_step50_quotient double_step50_eps double_55_hundredths double_100 double_step100_product
        double_nine_tenths double_step100_eps)
  show ?thesis using early late zero scen by blast
qed

theorem linear_schedule_witness:
  "eps_method scenario_config = ''linear''
   \<and> eps_decay scenario_config \<noteq> Finite 0
   \<and> int_less_float 1 (eps_decay scenario_config)
   \<and> py_float 1 = Inr (Finite 1)
   \<and> \<not> int_less_float 150 (eps_decay scenario_config)
   \<and> fp_less (Finite 0) (eps_decay scenario_config)
   \<and> eps_start scenario_config = Finite 1
   \<and> fround64 1 = Finite 1
   \<and> fp_sub fround64 (eps_start scenario_config) (eps_end scenario_config)
       = Finite (8106479329266893 / 9007199254740992)
   \<and> eps_end scenario_config = fround64 (1 / 10)
   \<and> eps_decay scenario_config = Finite 100
   \<and> get_current_eps scenario_config 0 = Inr (Finite 1)
   \<and> get_current_eps scenario_config 1
       = Inr (fp_sub fround64 (Finite 1)
                (fp_div fround64
                   (fp_mul fround64 (Finite (8106479329266893 / 9007199254740992)) (Finite 1))
                   (Finite 100)))
   \<and> get_current_eps scenario_config 50 = Inr (fround64 (55 / 100))
   \<and> get_current_eps scenario_config 150 = Inr (Finite (900719925474099 / 9007199254740992))"
  using linear_schedule [where c = scenario_config and step = 1 and s = "Finite 1"
      and a = 1 and d = "8106479329266893 / 9007199254740992"]
    linear_schedule [where c = scenario_config and step = 150 and s = "Finite 1"
      and a = 1 and d = "8106479329266893 / 9007199254740992"]
  by (simp add: scenario_config_def int_less_float_def py_float_def fp_sub_def fp_neg_def
      double_1 double_tenth double_one_minus_tenth)







section \<open>Properties of the bootstrapped target\<close>

lemma is_finite_iff: "is_finite a \<longleftrightarrow> (\<exists>x. a = Finite x)"
  by (cases a) (simp_all add: is_finite_def)

lemma fp_less_Finite [simp]: "Finite x < Finite y \<longleftrightarrow> x < y"
  by (auto simp: less_fp_def less_eq_fp_def)

lemma fp_add_zero32: "fp_add fround32 (to_single a) (Finite 0) = to_single a"
proof (cases a)
  case (Finite x)
  show ?thesis
  proof (cases "fround32 x")
    case (Finite v)
    with fround32_idem [OF Finite] \<open>a = Finite x\<close> show ?thesis by (simp add: to_single_def)
  qed (simp_all add: to_single_def \<open>a = Finite x\<close>)
qed (simp_all add: to_single_def)

lemma tensor_zip_Inr:
  "tensor_zip f xs ys = Inr zs \<longleftrightarrow> length xs = length ys \<and> zs = map2 f xs ys"
  by (auto simp: tensor_zip_def)

lemma row_max_fst: "fst (row_max b bi i xs) = fold max xs b"
proof (induction xs arbitrary: b bi i)
  case Nil
  then show ?case by simp
next
  case (Cons x xs)
  have "max x b = (if b < x then x else b)" by (auto simp: max_def)
  with Cons show ?case by simp
qed

lemma row_max_snd:
  "length pre = i \<Longrightarrow> bi < i \<Longrightarrow> pre ! bi = b \<Longrightarrow>
   snd (row_max b bi i xs) < i + length xs
   \<and> (pre @ xs) ! snd (row_max b bi i xs) = fst (row_max b bi i xs)"
proof (induction xs arbitrary: b bi i pre)
  case Nil
  then show ?case by (simp add: nth_append)
next
  case (Cons x xs)
  show ?case
  proof (cases "b < x")
    case True
    have "snd (row_max x i (Suc i) xs) < Suc i + length xs
       \<and> ((pre @ [x]) @ xs) ! snd (row_max x i (Suc i) xs) = fst (row_max x i (Suc i) xs)"
      using Cons.prems by (intro Cons.IH) (simp_all add: nth_append)
    with True show ?thesis by simp
  next
    case False
    have "snd (row_max b bi (Suc i) xs) < Suc i + length xs
       \<and> ((pre @ [x]) @ xs) ! snd (row_max b bi (Suc i) xs) = fst (row_max b bi (Suc i) xs)"
      using Cons.prems by (intro Cons.IH) (simp_all add: nth_append)
    with False show ?thesis by simp
  qed
qed

lemma max_row_Inr:
  "max_row row = Inr (v, j) \<Longrightarrow> row \<noteq> [] \<and> j < length row \<and> row ! j = v \<and> v = Max (set row)"
proof (cases row)
  case Nil
  assume "max_row row = Inr (v, j)"
  with Nil show ?thesis by (simp add: max_row_def)
next
  case (Cons x xs)
  assume a: "max_row row = Inr (v, j)"
  then have r: "row_max x 0 1 xs = (v, j)" using Cons by (simp add: max_row_def)
  have "snd (row_max x 0 1 xs) < 1 + length xs
       \<and> ([x] @ xs) ! snd (row_max x 0 1 xs) = fst (row_max x 0 1 xs)"
    by (rule row_max_snd) simp_all
  moreover have "fst (row_max x 0 1 xs) = Max (set (x # xs))"
    by (simp only: row_max_fst Max.set_eq_fold)
  ultimately show ?thesis using r Cons by simp
qed

lemma max_row_total: "row \<noteq> [] \<Longrightarrow> \<exists>p. max_row row = Inr p"
  by (cases row) (simp_all add: max_row_def)

lemma max_dim1_Inr:
  "max_dim1 q = Inr m \<Longrightarrow>
     length m = length q \<and> (\<forall>i<length q. max_row (q ! i) = Inr (m ! i))"
proof (induction q arbitrary: m)
  case Nil
  then show ?case by simp
next
  case (Cons r rs)
  from Cons.prems obtain p ms where p: "max_row r = Inr p" and ms: "max_dim1 rs = Inr ms"
      and m: "m = p # ms"
    by (auto simp: bindE_Inr_iff)
  from Cons.IH [OF ms] have ih: "length ms = length rs" "\<forall>i<length rs. max_row (rs ! i) = Inr (ms ! i)"
    by simp_all
  show ?case using p m ih by (auto simp: nth_Cons split: nat.splits)
qed

lemma max_dim1_total:
  "list_all (\<lambda>r. r \<noteq> []) q \<Longrightarrow> \<exists>m. max_dim1 q = Inr m"
proof (induction q)
  case Nil
  then show ?case by simp
next
  case (Cons r rs)
  then obtain p ms where "max_row r = Inr p" "max_dim1 rs = Inr ms"
    using max_row_total [of r] by auto
  then show ?case by (simp add: bindE_def)
qed

lemma gather1_Inr:
  "gather1 t idx = Inr vs \<Longrightarrow>
     length t = length idx \<and> length vs = length idx
     \<and> (\<forall>i<length idx. 0 \<le> idx ! i \<and> idx ! i < int (length (t ! i))
            \<and> vs ! i = (t ! i) ! nat (idx ! i))"
proof (induction t idx arbitrary: vs rule: gather1.induct)
  case (2 r rs j js)
  from "2.prems" obtain v ws where v: "gather_row r j = Inr v" and ws: "gather1 rs js = Inr ws"
      and vs: "vs = v # ws"
    by (auto simp: bindE_Inr_iff)
  from "2.IH" [OF ws] have ih: "length rs = length js" "length ws = length js"
     "\<forall>i<length js. 0 \<le> js ! i \<and> js ! i < int (length (rs ! i)) \<and> ws ! i = (rs ! i) ! nat (js ! i)"
    by simp_all
  from v have "0 \<le> j \<and> j < int (length r) \<and> v = r ! nat j"
    by (auto simp: gather_row_def split: if_splits)
  then show ?case using vs ih by (auto simp: nth_Cons split: nat.splits)
qed simp_all

lemma gather1_total:
  "length t = length idx \<Longrightarrow> list_all (\<lambda>(r, j). 0 \<le> j \<and> j < int (length r)) (zip t idx)
     \<Longrightarrow> \<exists>vs. gather1 t idx = Inr vs"
proof (induction t idx rule: list_induct2)
  case Nil
  then show ?case by simp
next
  case (Cons r rs j js)
  then obtain ws where "gather1 rs js = Inr ws" by auto
  moreover have "gather_row r j = Inr (r ! nat j)" using Cons.prems by (simp add: gather_row_def)
  ultimately show ?case by (simp add: bindE_def)
qed

lemma futures_total_aux:
  "list_all2 (\<lambda>r t. r \<noteq> [] \<and> length r \<le> length t) q t \<Longrightarrow>
     \<exists>m. max_dim1 q = Inr m \<and> (\<exists>vs. gather1 t (map (\<lambda>p. int (snd p)) m) = Inr vs)"
proof (induction rule: list_all2_induct)
  case Nil
  then show ?case by simp
next
  case (Cons r rs t ts)
  from Cons.IH obtain m vs where m: "max_dim1 rs = Inr m"
    and vs: "gather1 ts (map (\<lambda>p. int (snd p)) m) = Inr vs" by auto
  from Cons.hyps obtain p where p: "max_row r = Inr p" using max_row_total [of r] by auto
  obtain v j where vj: "p = (v, j)" by (cases p)
  from max_row_Inr [OF p [unfolded vj]] Cons.hyps have "j < length t" by simp
  then have "gather_row t (int j) = Inr (t ! j)" by (simp add: gather_row_def)
  with m vs p vj show ?case by (simp add: bindE_def)
qed

text \<open>
  C4. With double DQN the future value of every row of a batch is the target network's
  value at an action where \<open>q_next\<close>, the value network's output on the next
  observations, is maximal; without it the future value is the maximum of the row of
  \<open>q_next\<close>. The step returns whenever the outputs have the shape of the batch.
\<close>

theorem futures_selection:
  assumes "q_next = forward net (q_network s) (q_training s) next_obs"
  shows
  "(double_dqn c \<and> target_q_network s = Some tw
      \<and> q_next_target = forward net tw (target_training s) next_obs \<longrightarrow>
      (futures_of net c s next_obs = Inr futures \<longrightarrow>
         length futures = length q_next \<and> length q_next_target = length q_next
       \<and> (\<forall>i<length futures. \<exists>a. a < length (q_next ! i)
              \<and> q_next ! i ! a = Max (set (q_next ! i))
              \<and> a < length (q_next_target ! i)
              \<and> futures ! i = q_next_target ! i ! a))
    \<and> (list_all2 (\<lambda>r t. r \<noteq> [] \<and> length r \<le> length t) q_next q_next_target \<longrightarrow>
         (\<exists>fs. futures_of net c s next_obs = Inr fs)))
   \<and> (\<not> double_dqn c \<longrightarrow>
      (futures_of net c s next_obs = Inr futures \<longrightarrow>
         length futures = length q_next
       \<and> (\<forall>i<length futures. q_next ! i \<noteq> [] \<and> futures ! i = Max (set (q_next ! i))))
    \<and> (list_all (\<lambda>r. r \<noteq> []) q_next \<longrightarrow> (\<exists>fs. futures_of net c s next_obs = Inr fs)))"
proof -
  have dd: "length futures = length q_next \<and> length q_next_target = length q_next
       \<and> (\<forall>i<length futures. \<exists>a. a < length (q_next ! i)
              \<and> q_next ! i ! a = Max (set (q_next ! i))
              \<and> a < length (q_next_target ! i)
              \<and> futures ! i = q_next_target ! i ! a)"
    if d: "double_dqn c" and tw: "target_q_network s = Some tw"
      and t: "q_next_target = forward net tw (target_training s) next_obs"
      and f: "futures_of net c s next_obs = Inr futures"
  proof -
    from f d tw t assms obtain m where m: "max_dim1 q_next = Inr m"
      and g: "gather1 q_next_target (map (\<lambda>p. int (snd p)) m) = Inr futures"
      by (auto simp: futures_of_def Let_def bindE_Inr_iff)
    note M = max_dim1_Inr [OF m]
    note G = gather1_Inr [OF g]
    have len: "length futures = length q_next" "length q_next_target = length q_next"
      using M G by simp_all
    have "\<exists>a. a < length (q_next ! i) \<and> q_next ! i ! a = Max (set (q_next ! i))
              \<and> a < length (q_next_target ! i) \<and> futures ! i = q_next_target ! i ! a"
      if i: "i < length futures" for i
    proof -
      obtain v a where va: "m ! i = (v, a)" by (cases "m ! i")
      have "max_row (q_next ! i) = Inr (v, a)" using M i len va by simp
      note R = max_row_Inr [OF this]
      have "int a < int (length (q_next_target ! i)) \<and> futures ! i = q_next_target ! i ! a"
        using G i len M va by fastforce
      with R show ?thesis by auto
    qed
    with len show ?thesis by simp
  qed
  have dt: "\<exists>fs. futures_of net c s next_obs = Inr fs"
    if d: "double_dqn c" and tw: "target_q_network s = Some tw"
      and t: "q_next_target = forward net tw (target_training s) next_obs"
      and l: "list_all2 (\<lambda>r t. r \<noteq> [] \<and> length r \<le> length t) q_next q_next_target"
    using futures_total_aux [OF l] d tw t assms
    by (auto simp: futures_of_def Let_def bindE_def)
  have nd: "length futures = length q_next
       \<and> (\<forall>i<length futures. q_next ! i \<noteq> [] \<and> futures ! i = Max (set (q_next ! i)))"
    if d: "\<not> double_dqn c" and f: "futures_of net c s next_obs = Inr futures"
  proof -
    from f d assms obtain m where m: "max_dim1 q_next = Inr m" and fm: "futures = map fst m"
      by (auto simp: futures_of_def Let_def bindE_Inr_iff)
    note M = max_dim1_Inr [OF m]
    have "q_next ! i \<noteq> [] \<and> futures ! i = Max (set (q_next ! i))" if i: "i < length futures" for i
    proof -
      obtain v a where va: "m ! i = (v, a)" by (cases "m ! i")
      have "max_row (q_next ! i) = Inr (v, a)" using M i fm va by simp
      from max_row_Inr [OF this] show ?thesis using fm i va by simp
    qed
    then show ?thesis using M fm by simp
  qed
  have nt: "\<exists>fs. futures_of net c s next_obs = Inr fs"
    if d: "\<not> double_dqn c" and l: "list_all (\<lambda>r. r \<noteq> []) q_next"
    using max_dim1_total [OF l] d assms by (auto simp: futures_of_def Let_def bindE_def)
  show ?thesis using dd dt nd nt by blast
qed

theorem futures_selection_witness:
  "double_dqn (scenario_config\<lparr>double_dqn := True\<rparr>)
   \<and> target_q_network scenario_agent = Some 3
   \<and> forward scenario_network (q_network scenario_agent) (q_training scenario_agent)
        [Finite 2, Finite 5]
       = [[Finite 2, Finite 3], [Finite 5, Finite 6]]
   \<and> forward scenario_network 3 (target_training scenario_agent) [Finite 2, Finite 5]
       = [[Finite 6, Finite 5], [Finite 15, Finite 8]]
   \<and> list_all2 (\<lambda>r t. r \<noteq> [] \<and> length r \<le> length t)
        [[Finite 2, Finite 3], [Finite 5, Finite 6]]
        [[Finite 6, Finite 5], [Finite 15, Finite 8]]
   \<and> futures_of scenario_network (scenario_config\<lparr>double_dqn := True\<rparr>) scenario_agent
        [Finite 2, Finite 5]
       = Inr [Finite 5, Finite 8]
   \<and> \<not> double_dqn scenario_config
   \<and> list_all (\<lambda>r. r \<noteq> []) [[Finite 2, Finite 3], [Finite 5, Finite 6]]
   \<and> futures_of scenario_network scenario_config scenario_agent [Finite 2, Finite 5]
       = Inr [Finite 3, Finite 6]"
proof -
  have q: "[[Finite 2, Finite 3], [Finite 5, Finite 6]] =
      forward scenario_network (q_network scenario_agent) (q_training scenario_agent)
        [Finite 2, Finite 5]"
    by (simp add: scenario_network_def scenario_agent_def single_2 single_3 single_5 single_6)
  have t: "forward scenario_network 3 (target_training scenario_agent) [Finite 2, Finite 5]
       = [[Finite 6, Finite 5], [Finite 15, Finite 8]]"
    by (simp add: scenario_network_def scenario_agent_def single_5 single_6 single_8 single_15)
  have 1: "futures_of scenario_network (scenario_config\<lparr>double_dqn := True\<rparr>) scenario_agent
        [Finite 2, Finite 5]
       = Inr [Finite 5, Finite 8]"
    using q [symmetric] t
    by (simp add: futures_of_def scenario_config_def max_row_def gather_row_def
        scenario_agent_def)
  have 2: "futures_of scenario_network scenario_config scenario_agent [Finite 2, Finite 5]
       = Inr [Finite 3, Finite 6]"
    using q [symmetric] by (simp add: futures_of_def scenario_config_def max_row_def)
  show ?thesis
    using 1 2 t q [symmetric]
      futures_selection [OF q, of "scenario_config\<lparr>double_dqn := True\<rparr>" 3
        "[[Finite 6, Finite 5], [Finite 15, Finite 8]]" "[Finite 5, Finite 8]"]
      futures_selection [OF q, of scenario_config 3
        "[[Finite 6, Finite 5], [Finite 15, Finite 8]]" "[Finite 3, Finite 6]"]
    by (simp add: scenario_config_def scenario_agent_def)
qed

lemma target_q_of_Inr:
  "target_q_of c futures rewards dones = Inr tq \<longleftrightarrow>
     length futures = length dones \<and> length rewards = length dones
     \<and> tq = map2 (fp_add fround32) rewards
              (map (fp_mul fround32 (to_single (discount c)))
                 (map2 (fp_mul fround32) futures (map (fp_sub fround32 (Finite 1)) dones)))"
  by (auto simp: target_q_of_def bindE_Inr_iff tensor_zip_Inr)

lemma target_q_of_nth:
  assumes "target_q_of c futures rewards dones = Inr tq" and "i < length dones"
  shows "length tq = length dones
     \<and> tq ! i = fp_add fround32 (rewards ! i)
                  (fp_mul fround32 (to_single (discount c))
                     (fp_mul fround32 (futures ! i) (fp_sub fround32 (Finite 1) (dones ! i))))"
  using assms by (simp add: target_q_of_Inr)

lemma terminal_target:
  assumes "is_finite f" and "is_finite (to_single g)"
  shows "fp_add fround32 (to_single r)
           (fp_mul fround32 (to_single g)
              (fp_mul fround32 f (fp_sub fround32 (Finite 1) (Finite 1))))
         = to_single r"
proof -
  from assms obtain x y where "f = Finite x" and "to_single g = Finite y"
    by (auto simp: is_finite_iff)
  then show ?thesis by (simp add: fp_sub_def fp_neg_def fp_add_zero32)
qed

text \<open>
  C1, as stated, fails on the tensors of the code. The terminal mask is a multiplication:
  when the action values of the next state are infinite, the future value is \<open>inf\<close> and
  \<open>inf * 0\<close> is NaN, so the target of a terminal transition with reward \<open>1.0\<close> is NaN.
  And the reward enters the target rounded to binary32: a terminal transition with
  reward \<open>0.1\<close> has the target \<open>0.10000000149011612\<close>.
\<close>

theorem bootstrapped_target_counterexample:
  "done_flag (scenario_transition\<lparr>next_observation := PInf\<rparr>)
   \<and> reward (scenario_transition\<lparr>next_observation := PInf\<rparr>) = Finite 1
   \<and> transitions_to_batch [scenario_transition\<lparr>next_observation := PInf\<rparr>]
       = Inr (scenario_batch\<lparr>next_obs_batch := [PInf]\<rparr>)
   \<and> forward scenario_network (q_network scenario_agent) (q_training scenario_agent) [PInf]
       = [[PInf, PInf]]
   \<and> target_q_batch scenario_network scenario_config scenario_agent
        (scenario_batch\<lparr>next_obs_batch := [PInf]\<rparr>) = Inr [NaN]
   \<and> done_flag (scenario_transition\<lparr>reward := fround64 (1 / 10)\<rparr>)
   \<and> transitions_to_batch [scenario_transition\<lparr>reward := fround64 (1 / 10)\<rparr>]
       = Inr (scenario_batch\<lparr>reward_batch := [Finite (13421773 / 134217728)]\<rparr>)
   \<and> target_q_batch scenario_network scenario_config scenario_agent
        (scenario_batch\<lparr>reward_batch := [Finite (13421773 / 134217728)]\<rparr>)
       = Inr [Finite (13421773 / 134217728)]
   \<and> fround64 (1 / 10) = Finite (3602879701896397 / 36028797018963968)
   \<and> Finite (13421773 / 134217728) \<noteq> fround64 (1 / 10)"
proof -
  have a: "target_q_batch scenario_network scenario_config scenario_agent
        (scenario_batch\<lparr>next_obs_batch := [PInf]\<rparr>) = Inr [NaN]"
    by (simp add: target_q_batch_def futures_of_def target_q_of_def tensor_zip_def max_row_def
        scenario_network_def scenario_config_def scenario_agent_def scenario_batch_def
        fp_sub_def fp_neg_def to_single_def double_nine_tenths single_nine_tenths)
  have b: "target_q_batch scenario_network scenario_config scenario_agent
        (scenario_batch\<lparr>reward_batch := [Finite (13421773 / 134217728)]\<rparr>)
       = Inr [Finite (13421773 / 134217728)]"
    by (simp add: target_q_batch_def futures_of_def target_q_of_def tensor_zip_def max_row_def
        scenario_network_def scenario_config_def scenario_agent_def scenario_batch_def
        fp_sub_def fp_neg_def to_single_def double_nine_tenths single_nine_tenths single_2 single_3
        fround32_idem [OF single_tenth])
  show ?thesis using a b
    by (simp add: transitions_to_batch_def scenario_transition_def scenario_batch_def
        scenario_network_def scenario_agent_def to_single_def double_tenth single_tenth single_1)
qed

text \<open>
  C1, amended. For every batch built from transitions, the target is, entry by entry and
  in binary32, \<open>reward + discount * (future * (1 - done))\<close>, where the reward and the
  discount are rounded to binary32; for a terminal transition whose future value is finite
  (and a finite discount) the target is the reward rounded to binary32. Without double
  DQN, with discount \<open>0.9\<close>, a terminal transition with reward \<open>1.0\<close> has target \<open>1.0\<close>
  whenever the largest action value of the next state is finite.
\<close>

theorem bootstrapped_target:
  assumes "transitions_to_batch ts = Inr b"
  shows
   "(target_q_batch net c s b = Inr target_q \<longrightarrow>
       (\<exists>futures. futures_of net c s (next_obs_batch b) = Inr futures
          \<and> length futures = length ts \<and> length target_q = length ts
          \<and> (\<forall>i<length ts.
               target_q ! i =
                 fp_add fround32 (to_single (reward (ts ! i)))
                   (fp_mul fround32 (to_single (discount c))
                      (fp_mul fround32 (futures ! i)
                         (fp_sub fround32 (Finite 1)
                            (if done_flag (ts ! i) then Finite 1 else Finite 0))))
             \<and> (done_flag (ts ! i) \<and> is_finite (futures ! i)
                  \<and> is_finite (to_single (discount c)) \<longrightarrow>
                  target_q ! i = to_single (reward (ts ! i))))))
    \<and> (futures_of net c s (next_obs_batch b) = Inr fs \<and> length fs = length ts \<longrightarrow>
         (\<exists>tq. target_q_batch net c s b = Inr tq))
    \<and> (\<not> double_dqn c \<and> discount c = fround64 (9 / 10) \<and> ts = [t] \<and> reward t = Finite 1
         \<and> done_flag t
         \<and> forward net (q_network s) (q_training s) [next_observation t] = [row]
         \<and> row \<noteq> [] \<and> is_finite (Max (set row)) \<longrightarrow>
         target_q_batch net c s b = Inr [Finite 1])"
proof -
  from assms have b: "next_obs_batch b = map next_observation ts"
      "reward_batch b = map (\<lambda>t. to_single (reward t)) ts"
      "done_batch b = map (\<lambda>t. if done_flag t then Finite 1 else Finite 0) ts"
    by (auto simp: transitions_to_batch_def split: if_splits)
  have 1: "\<exists>futures. futures_of net c s (next_obs_batch b) = Inr futures
          \<and> length futures = length ts \<and> length target_q = length ts
          \<and> (\<forall>i<length ts.
               target_q ! i =
                 fp_add fround32 (to_single (reward (ts ! i)))
                   (fp_mul fround32 (to_single (discount c))
                      (fp_mul fround32 (futures ! i)
                         (fp_sub fround32 (Finite 1)
                            (if done_flag (ts ! i) then Finite 1 else Finite 0))))
             \<and> (done_flag (ts ! i) \<and> is_finite (futures ! i)
                  \<and> is_finite (to_single (discount c)) \<longrightarrow>
                  target_q ! i = to_single (reward (ts ! i))))"
    if tq: "target_q_batch net c s b = Inr target_q"
  proof -
    from tq obtain futures where f: "futures_of net c s (next_obs_batch b) = Inr futures"
      and t: "target_q_of c futures (reward_batch b) (done_batch b) = Inr target_q"
      by (auto simp: target_q_batch_def bindE_Inr_iff)
    have len: "length futures = length ts" using t b by (simp add: target_q_of_Inr)
    have "target_q ! i =
                 fp_add fround32 (to_single (reward (ts ! i)))
                   (fp_mul fround32 (to_single (discount c))
                      (fp_mul fround32 (futures ! i)
                         (fp_sub fround32 (Finite 1)
                            (if done_flag (ts ! i) then Finite 1 else Finite 0))))
             \<and> (done_flag (ts ! i) \<and> is_finite (futures ! i)
                  \<and> is_finite (to_single (discount c)) \<longrightarrow>
                  target_q ! i = to_single (reward (ts ! i)))"
      if i: "i < length ts" for i
    proof -
      have e: "target_q ! i =
                 fp_add fround32 (to_single (reward (ts ! i)))
                   (fp_mul fround32 (to_single (discount c))
                      (fp_mul fround32 (futures ! i)
                         (fp_sub fround32 (Finite 1)
                            (if done_flag (ts ! i) then Finite 1 else Finite 0))))"
        using target_q_of_nth [OF t, of i] i b by simp
      moreover have "target_q ! i = to_single (reward (ts ! i))"
        if "done_flag (ts ! i)" and "is_finite (futures ! i)"
          and "is_finite (to_single (discount c))"
        using e that terminal_target [OF that(2,3)] by simp
      ultimately show ?thesis by blast
    qed
    moreover have "length target_q = length ts"
      using t b by (simp add: target_q_of_Inr)
    ultimately show ?thesis using f len by blast
  qed
  have 2: "\<exists>tq. target_q_batch net c s b = Inr tq"
    if "futures_of net c s (next_obs_batch b) = Inr fs" "length fs = length ts"
    using that b by (simp add: target_q_batch_def target_q_of_def tensor_zip_def)
  have 3: "target_q_batch net c s b = Inr [Finite 1]"
    if d: "\<not> double_dqn c" and g: "discount c = fround64 (9 / 10)" and ts: "ts = [t]"
      and r: "reward t = Finite 1" and dn: "done_flag t"
      and q: "forward net (q_network s) (q_training s) [next_observation t] = [row]"
      and row: "row \<noteq> []" and fin: "is_finite (Max (set row))"
  proof -
    obtain p where p: "max_row row = Inr p" using max_row_total [OF row] by auto
    obtain v j where vj: "p = (v, j)" by (cases p)
    from max_row_Inr [OF p [unfolded vj]] have "v = Max (set row)" by simp
    with fin obtain x where x: "v = Finite x" by (auto simp: is_finite_iff)
    have "futures_of net c s (next_obs_batch b) = Inr [Finite x]"
      using d q p b ts vj x by (simp add: futures_of_def)
    then show ?thesis using b ts r dn g
      by (simp add: target_q_batch_def target_q_of_def tensor_zip_def fp_sub_def fp_neg_def
          to_single_def double_nine_tenths single_nine_tenths single_1)
  qed
  show ?thesis using 1 2 3 by blast
qed

theorem bootstrapped_target_witness:
  "transitions_to_batch [scenario_transition] = Inr scenario_batch
   \<and> \<not> double_dqn scenario_config \<and> discount scenario_config = fround64 (9 / 10)
   \<and> reward scenario_transition = Finite 1 \<and> done_flag scenario_transition
   \<and> forward scenario_network (q_network scenario_agent) (q_training scenario_agent)
        [next_observation scenario_transition] = [[Finite 2, Finite 3]]
   \<and> is_finite (Max (set [Finite 2, Finite 3]))
   \<and> is_finite (to_single (discount scenario_config))
   \<and> futures_of scenario_network scenario_config scenario_agent [Finite 2] = Inr [Finite 3]
   \<and> target_q_batch scenario_network scenario_config scenario_agent scenario_batch
       = Inr [Finite 1]"
proof -
  have b: "transitions_to_batch [scenario_transition] = Inr scenario_batch"
    by (simp add: transitions_to_batch_def scenario_transition_def scenario_batch_def
        to_single_def single_1)
  have q: "forward scenario_network (q_network scenario_agent) (q_training scenario_agent)
        [next_observation scenario_transition] = [[Finite 2, Finite 3]]"
    by (simp add: scenario_network_def scenario_agent_def scenario_transition_def single_2 single_3)
  have m: "Max (set [Finite 2, Finite 3]) = Finite 3"
    by (simp add: max_def less_eq_fp_def)
  have f: "futures_of scenario_network scenario_config scenario_agent [Finite 2]
       = Inr [Finite 3]"
    using q by (simp add: futures_of_def scenario_config_def max_row_def
        scenario_transition_def)
  have g: "to_single (discount scenario_config) = Finite (7549747 / 8388608)"
    by (simp add: scenario_config_def to_single_def double_nine_tenths single_nine_tenths)
  show ?thesis
    using b q f m g
      bootstrapped_target [OF b, of scenario_network scenario_config scenario_agent
        "[Finite 1]" "[Finite 3]" scenario_transition "[Finite 2, Finite 3]"]
    by (simp add: scenario_config_def scenario_transition_def scenario_batch_def
        is_finite_def)
qed

section \<open>Unsupported kinds\<close>

lemma mse_loss_total: "length q = length t \<Longrightarrow> \<exists>x. mse_loss net q t = Inr x"
  by (simp add: mse_loss_def)

lemma smooth_l1_loss_total: "length q = length t \<Longrightarrow> \<exists>x. smooth_l1_loss net q t = Inr x"
  by (simp add: smooth_l1_loss_def)











section \<open>Properties of the learner's loop\<close>

lemma update_target_network_Inr:
  "update_target_network s = Inr s1 \<Longrightarrow>
     s1 = s\<lparr>target_q_network := Some (q_network s)\<rparr>"
  by (auto simp: update_target_network_def split: option.splits)

lemma optimize_frame:
  assumes "optimize net c s b = Inr (loss, s2)"
  shows "target_q_network s2 = target_q_network s \<and> target_training s2 = target_training s
     \<and> current_eps s2 = current_eps s \<and> episode_idx s2 = episode_idx s"
  using assms
  by (auto simp: optimize_def Let_def bindE_Inr_iff case_prod_beta split: if_splits)

lemma learn_iter_Inr:
  assumes "learn_iter net c b l = Inr l'"
  shows "\<exists>s1 eps loss s2.
      (if double_dqn c \<and> steps l mod target_update_freq c = 0
       then target_update_freq c \<noteq> 0 \<and> update_target_network (agent_of l) = Inr s1
       else s1 = agent_of l)
    \<and> get_current_eps c (steps l) = Inr eps
    \<and> optimize net c (s1\<lparr>current_eps := eps\<rparr>) b = Inr (loss, s2)
    \<and> agent_of l' = s2 \<and> steps l' = steps l + 1"
  using assms
  by (auto simp: learn_iter_def Let_def bindE_Inr_iff py_mod_def float_truediv_def case_prod_beta
      split: if_splits option.splits)

lemma str_int_2: "str_int 2 = ''2''"
  by (simp add: str_int_def str_nat.simps)

lemma str_int_4: "str_int 4 = ''4''"
  by (simp add: str_int_def str_nat.simps)

lemma parse_suffix: "int_of_str (drop (nat (rfind ''ckpt/agent.model-2'' CHR ''-'' + 1)) ''ckpt/agent.model-2'') = Inr 2"
  by (simp add: rfind_def int_of_str_def strip_def is_space_def digit_val_def Let_def)

lemma scenario_init:
  "init scenario_fs scenario_config 0 True () (Some ''ckpt/agent.model-2'') =
     Inr (scenario_config,
          \<lparr> q_network = 1, q_training = True, target_q_network = None, target_training = True,
            optimizer = (), current_eps = Finite 1, episode_idx = 2 \<rparr>)"
  using parse_suffix
  by (simp add: init_def Let_def bindE_def load_model_def scenario_fs_def scenario_config_def)

lemmas scenario_eval =
  learn_iter_def optimize_def target_q_batch_def futures_of_def target_q_of_def compute_loss_def
  mse_loss_def tensor_zip_def max_row_def gather_row_def Let_def py_mod_def
  float_truediv_def py_float_def update_target_network_def path_join_def
  scenario_network_def scenario_batch_def scenario_agent_def learn_start_def
  fp_sub_def fp_neg_def to_single_def

lemmas scenario_rounding =
  double_1 double_2 double_tenth double_nine_tenths double_one_minus_tenth double_nine_tenths_exact double_step1_quotient double_step1_eps single_1 single_2 single_3 single_4 single_nine_tenths

lemma scenario_config_eps [simp]:
  "get_current_eps (scenario_config\<lparr>double_dqn := True\<rparr>) n = get_current_eps scenario_config n"
  by (simp add: get_current_eps_def scenario_config_def)

lemma scenario_config_fields:
  "double_dqn scenario_config = False" "target_update_freq scenario_config = 2"
  "allow_eval_mode scenario_config = True" "loss_type scenario_config = ''mse''"
  "save_model_dir scenario_config = Some ''ckpt''" "save_model_freq scenario_config = 2"
  "print_freq scenario_config = 2" "discount scenario_config = fround64 (9 / 10)"
  "gradient_clipping scenario_config = 1"
  by (simp_all add: scenario_config_def)

lemma scenario_double_iter_1:
  "learn_iter scenario_network (scenario_config\<lparr>double_dqn := True\<rparr>) scenario_batch
     (learn_start scenario_agent) =
   Inr \<lparr> agent_of = \<lparr> q_network = 2, q_training = True, target_q_network = Some 1,
                      target_training = False, optimizer = (), current_eps = Finite 1,
                      episode_idx = 0 \<rparr>,
         steps = 1, loss_sum = Finite 1, saved = [], printed = [] \<rparr>"
  by (simp add: scenario_eval scenario_config_fields scenario_eps_0 scenario_eps_1 scenario_rounding)

lemma scenario_double_iter_2:
  "learn_iter scenario_network (scenario_config\<lparr>double_dqn := True\<rparr>) scenario_batch
     \<lparr> agent_of = \<lparr> q_network = 2, q_training = True, target_q_network = Some 1,
                      target_training = False, optimizer = (), current_eps = Finite 1,
                      episode_idx = 0 \<rparr>,
         steps = 1, loss_sum = Finite 1, saved = [], printed = [] \<rparr> =
   Inr \<lparr> agent_of = \<lparr> q_network = 3, q_training = True, target_q_network = Some 1,
                      target_training = False, optimizer = (), current_eps = Finite (8926134461448323 / 9007199254740992),
                      episode_idx = 0 \<rparr>,
         steps = 2, loss_sum = Finite 0, saved = [(''ckpt/agent.model-2'', 3)],
         printed = [(2, Finite (8926134461448323 / 9007199254740992), Finite 1)] \<rparr>"
  using str_int_2
  by (simp add: scenario_eval scenario_config_fields scenario_eps_0 scenario_eps_1 scenario_rounding)

lemma scenario_resumed_run:
  "learn_loop scenario_network scenario_config [scenario_batch, scenario_batch]
     (learn_start \<lparr> q_network = 1, q_training = True, target_q_network = None,
                    target_training = True, optimizer = (), current_eps = Finite 1,
                    episode_idx = 2 \<rparr>) =
   Inr \<lparr> agent_of = \<lparr> q_network = 3, q_training = True, target_q_network = None,
                      target_training = True, optimizer = (), current_eps = Finite (8926134461448323 / 9007199254740992),
                      episode_idx = 2 \<rparr>,
         steps = 2, loss_sum = Finite 0, saved = [(''ckpt/agent.model-2'', 3)],
         printed = [(2, Finite (8926134461448323 / 9007199254740992), Finite 1)] \<rparr>"
  using str_int_2
  by (simp add: scenario_eval scenario_config_fields scenario_eps_0 scenario_eps_1 scenario_rounding)

lemma init_Inr:
  assumes "init fs args w training opt path = Inr (c0, s0)"
  shows "current_eps s0 = Finite 1
    \<and> c0 = args\<lparr>init_memory_size := max (init_memory_size args) (batch_size args)\<rparr>
    \<and> (double_dqn args \<longrightarrow> target_q_network s0 = Some (q_network s0))"
  using assms
  by (auto simp: init_def Let_def bindE_Inr_iff load_model_def update_target_network_def
      init_target_network_def split: option.splits if_splits)

lemma learn_loop_published:
  "learn_loop net c bs l = Inr l' \<Longrightarrow>
     steps l' = steps l + int (length bs)
     \<and> (bs \<noteq> [] \<longrightarrow> get_current_eps c (steps l' - 1) = Inr (current_eps (agent_of l')))"
proof (induction bs arbitrary: l)
  case Nil
  then show ?case by simp
next
  case (Cons b bs)
  from Cons.prems obtain l1 where l1: "learn_iter net c b l = Inr l1"
    and rest: "learn_loop net c bs l1 = Inr l'"
    by (auto simp: bindE_Inr_iff)
  from learn_iter_Inr [OF l1] obtain s1 eps loss s2 where
    e: "get_current_eps c (steps l) = Inr eps"
    and o: "optimize net c (s1\<lparr>current_eps := eps\<rparr>) b = Inr (loss, s2)"
    and a: "agent_of l1 = s2" and st: "steps l1 = steps l + 1"
    by blast
  from optimize_frame [OF o] a have pub: "current_eps (agent_of l1) = eps" by simp
  note ih = Cons.IH [OF rest]
  show ?case
  proof (cases "bs = []")
    case True
    with rest have "l' = l1" by simp
    with e pub st show ?thesis using True by simp
  next
    case False
    from ih st have n: "steps l' = steps l + int (length (b # bs))" by simp
    from ih False have "get_current_eps c (steps l' - 1) = Inr (current_eps (agent_of l'))"
      by blast
    with n show ?thesis by simp
  qed
qed

text \<open>
  C5. In a turn of the learner's loop with double DQN and \<open>steps % target_update_freq == 0\<close>
  the target weights become the value weights of that instant, and they are still those
  weights after the gradient step of the turn; in every other turn, and in \<open>_optimize\<close>
  alone, the target weights do not change. Right after \<open>_update_target_network\<close> (also
  the one of the constructor) the target weights equal the value weights.
\<close>

theorem target_sync:
  "(update_target_network s = Inr s1 \<longrightarrow>
      target_q_network s1 = Some (q_network s1) \<and> q_network s1 = q_network s)
   \<and> (init fs args w training opt path = Inr (c0, s0) \<and> double_dqn args \<longrightarrow>
        target_q_network s0 = Some (q_network s0))
   \<and> (learn_iter net c b l = Inr l1 \<longrightarrow>
        (double_dqn c \<and> steps l mod target_update_freq c = 0 \<longrightarrow>
           target_q_network (agent_of l1) = Some (q_network (agent_of l)))
      \<and> (\<not> (double_dqn c \<and> steps l mod target_update_freq c = 0) \<longrightarrow>
           target_q_network (agent_of l1) = target_q_network (agent_of l)))
   \<and> (optimize net c s b = Inr (loss, s2) \<longrightarrow> target_q_network s2 = target_q_network s)"
proof -
  have u: "target_q_network s1 = Some (q_network s1) \<and> q_network s1 = q_network s"
    if "update_target_network s = Inr s1"
    using update_target_network_Inr [OF that] by simp
  have i: "target_q_network s0 = Some (q_network s0)"
    if "init fs args w training opt path = Inr (c0, s0)" "double_dqn args"
    using init_Inr [OF that(1)] that(2) by simp
  have o: "target_q_network s2 = target_q_network s" if "optimize net c s b = Inr (loss, s2)"
    using optimize_frame [OF that] by simp
  have l: "(double_dqn c \<and> steps l mod target_update_freq c = 0 \<longrightarrow>
           target_q_network (agent_of l1) = Some (q_network (agent_of l)))
      \<and> (\<not> (double_dqn c \<and> steps l mod target_update_freq c = 0) \<longrightarrow>
           target_q_network (agent_of l1) = target_q_network (agent_of l))"
    if it: "learn_iter net c b l = Inr l1"
  proof -
    from learn_iter_Inr [OF it] obtain s' eps loss' s2' where
      sy: "if double_dqn c \<and> steps l mod target_update_freq c = 0
           then target_update_freq c \<noteq> 0 \<and> update_target_network (agent_of l) = Inr s'
           else s' = agent_of l"
      and op: "optimize net c (s'\<lparr>current_eps := eps\<rparr>) b = Inr (loss', s2')"
      and a: "agent_of l1 = s2'"
      by blast
    from optimize_frame [OF op] a
    have t: "target_q_network (agent_of l1) = target_q_network s'" by simp
    show ?thesis
    proof (cases "double_dqn c \<and> steps l mod target_update_freq c = 0")
      case True
      with sy have "update_target_network (agent_of l) = Inr s'" by simp
      from update_target_network_Inr [OF this] t True show ?thesis by simp
    next
      case False
      with sy have "s' = agent_of l" by auto
      with t False show ?thesis by auto
    qed
  qed
  show ?thesis using u i o l by blast
qed

lemma scenario_init_double:
  "init scenario_fs (scenario_config\<lparr>double_dqn := True\<rparr>) 0 True () None =
     Inr (scenario_config\<lparr>double_dqn := True\<rparr>,
          \<lparr> q_network = 0, q_training = True, target_q_network = Some 0,
            target_training = False, optimizer = (), current_eps = Finite 1, episode_idx = 0 \<rparr>)"
  by (simp add: init_def Let_def bindE_def update_target_network_def init_target_network_def
      scenario_config_def)

theorem target_sync_witness:
  "update_target_network scenario_agent = Inr (scenario_agent\<lparr>target_q_network := Some 1\<rparr>)
   \<and> double_dqn (scenario_config\<lparr>double_dqn := True\<rparr>)
   \<and> init scenario_fs (scenario_config\<lparr>double_dqn := True\<rparr>) 0 True () None =
       Inr (scenario_config\<lparr>double_dqn := True\<rparr>,
          \<lparr> q_network = 0, q_training = True, target_q_network = Some 0,
            target_training = False, optimizer = (), current_eps = Finite 1, episode_idx = 0 \<rparr>)
   \<and> steps (learn_start scenario_agent)
        mod target_update_freq (scenario_config\<lparr>double_dqn := True\<rparr>) = 0
   \<and> target_q_network scenario_agent = Some 3
   \<and> target_q_network (agent_of (projr (learn_iter scenario_network
        (scenario_config\<lparr>double_dqn := True\<rparr>) scenario_batch (learn_start scenario_agent))))
       = Some 1
   \<and> 1 mod target_update_freq (scenario_config\<lparr>double_dqn := True\<rparr>) \<noteq> 0
   \<and> agent_of (projr (learn_iter scenario_network (scenario_config\<lparr>double_dqn := True\<rparr>)
        scenario_batch
        \<lparr> agent_of = \<lparr> q_network = 2, q_training = True, target_q_network = Some 1,
                      target_training = False, optimizer = (), current_eps = Finite 1,
                      episode_idx = 0 \<rparr>,
          steps = 1, loss_sum = Finite 1, saved = [], printed = [] \<rparr>))
       = \<lparr> q_network = 3, q_training = True, target_q_network = Some 1,
                      target_training = False, optimizer = (), current_eps = Finite (8926134461448323 / 9007199254740992),
                      episode_idx = 0 \<rparr>"
  using scenario_init_double scenario_double_iter_1 scenario_double_iter_2
    target_sync [of scenario_agent "scenario_agent\<lparr>target_q_network := Some 1\<rparr>"
      scenario_fs "scenario_config\<lparr>double_dqn := True\<rparr>" 0 True "()" None
      "scenario_config\<lparr>double_dqn := True\<rparr>"
      "\<lparr> q_network = 0, q_training = True, target_q_network = Some 0,
            target_training = False, optimizer = (), current_eps = Finite 1, episode_idx = 0 \<rparr>"
      scenario_network "scenario_config\<lparr>double_dqn := True\<rparr>" scenario_batch
      "learn_start scenario_agent"]
  by (simp add: update_target_network_def scenario_agent_def scenario_config_def learn_start_def)

text \<open>
  C6, as stated, fails: the constructor sets the shared epsilon to \<open>1.0\<close>, not to
  \<open>eps_start\<close>; with \<open>eps_start = 0.5\<close> the two differ.
\<close>

theorem epsilon_initial_value_counterexample:
  "\<exists>c s. init scenario_fs (scenario_config\<lparr>eps_start := Finite (1 / 2)\<rparr>) (0 :: real) True ()
            None = Inr (c, s)
         \<and> eps_start c = Finite (1 / 2) \<and> current_eps s = Finite 1
         \<and> current_eps s \<noteq> eps_start c"
  by (simp add: init_def Let_def scenario_config_def)

lemma actor_step_Inr:
  "actor_step world net c u sampled s a = Inr (s1, a1, t) \<Longrightarrow> s1 = s"
  by (auto simp: actor_step_def Let_def bindE_Inr_iff case_prod_beta split: if_splits)

lemma actor_loop_Inr:
  "actor_loop world net c draws s a = Inr (s1, a1, ts) \<Longrightarrow> s1 = s \<and> length ts = length draws"
proof (induction draws arbitrary: s a s1 a1 ts)
  case Nil
  then show ?case by simp
next
  case (Cons draw draws)
  from Cons.prems obtain s2 a2 t s3 a3 ts'
    where st: "actor_step world net c (fst draw) (snd draw) s a = Inr (s2, a2, t)"
      and lp: "actor_loop world net c draws s2 a2 = Inr (s3, a3, ts')"
      and r: "s1 = s3" "ts = t # ts'"
    by (auto simp: bindE_Inr_iff)
  from actor_step_Inr [OF st] Cons.IH [OF lp] r show ?case by simp
qed

text \<open>
  C6, amended. The shared epsilon is \<open>1.0\<close> after the constructor. Every turn of the
  learner's loop leaves it at the schedule's value for the step count the turn began with,
  and neither the target update nor \<open>_optimize\<close> changes it; after \<open>n > 0\<close> turns from
  the start of \<open>learn\<close> it is the value for step \<open>n - 1\<close>. A turn of an actor worker,
  and any number of them, leaves the agent (its epsilon, too) as it found it.
\<close>

theorem epsilon_publication:
  "(init fs args w training opt path = Inr (c0, s0) \<longrightarrow> current_eps s0 = Finite 1)
   \<and> (learn_iter net c b l = Inr l1 \<longrightarrow>
        get_current_eps c (steps l) = Inr (current_eps (agent_of l1)) \<and> steps l1 = steps l + 1)
   \<and> (update_target_network s = Inr s1 \<longrightarrow> current_eps s1 = current_eps s)
   \<and> (optimize net c s b = Inr (loss, s2) \<longrightarrow> current_eps s2 = current_eps s)
   \<and> (learn_loop net c bs (learn_start s) = Inr l2 \<and> bs \<noteq> [] \<longrightarrow>
        get_current_eps c (int (length bs) - 1) = Inr (current_eps (agent_of l2)))
   \<and> (actor_step world net c u sampled s a = Inr (s3, a1, t) \<longrightarrow>
        s3 = s \<and> current_eps s3 = current_eps s)
   \<and> (actor_loop world net c draws s a = Inr (s4, a2, ts) \<longrightarrow>
        s4 = s \<and> current_eps s4 = current_eps s \<and> length ts = length draws)"
proof -
  have i: "current_eps s0 = Finite 1" if "init fs args w training opt path = Inr (c0, s0)"
    using init_Inr [OF that] by simp
  have it: "get_current_eps c (steps l) = Inr (current_eps (agent_of l')) \<and> steps l' = steps l + 1"
    if "learn_iter net c b l = Inr l'" for l l'
  proof -
    from learn_iter_Inr [OF that] obtain s' eps loss' s2' where
      e: "get_current_eps c (steps l) = Inr eps"
      and op: "optimize net c (s'\<lparr>current_eps := eps\<rparr>) b = Inr (loss', s2')"
      and a: "agent_of l' = s2'" and st: "steps l' = steps l + 1"
      by blast
    from optimize_frame [OF op] a e st show ?thesis by simp
  qed
  have u: "current_eps s1 = current_eps s" if "update_target_network s = Inr s1"
    using update_target_network_Inr [OF that] by simp
  have o: "current_eps s2 = current_eps s" if "optimize net c s b = Inr (loss, s2)"
    using optimize_frame [OF that] by simp
  have lp: "get_current_eps c (int (length bs) - 1) = Inr (current_eps (agent_of l2))"
    if "learn_loop net c bs (learn_start s) = Inr l2" "bs \<noteq> []"
  proof -
    from learn_loop_published [OF that(1)] that(2)
    have n: "steps l2 = int (length bs)"
      and e: "get_current_eps c (steps l2 - 1) = Inr (current_eps (agent_of l2))"
      by (auto simp: learn_start_def)
    from e show ?thesis by (simp only: n)
  qed
  have f: "s3 = s \<and> current_eps s3 = current_eps s"
    if "actor_step world net c u sampled s a = Inr (s3, a1, t)"
    using actor_step_Inr [OF that] by simp
  have g: "s4 = s \<and> current_eps s4 = current_eps s \<and> length ts = length draws"
    if "actor_loop world net c draws s a = Inr (s4, a2, ts)"
    using actor_loop_Inr [OF that] by simp
  show ?thesis using i it u o lp f g by blast
qed

lemma scenario_actor_step:
  "actor_step scenario_world scenario_network scenario_config (Finite (1 / 2)) 1 scenario_agent
     (actor_start scenario_world 0 True)
   = Inr (scenario_agent,
          \<lparr> env = 1, actor_observation = Finite 2, episode_id = 0, cum_return = Finite 1,
            actor_training = True \<rparr>,
          \<lparr> observation = Finite 0, action = 1, reward = Finite 1,
            next_observation = Finite 2, done_flag = False \<rparr>)"
  by (simp add: actor_step_def actor_start_def act_def fp_ge_def scenario_world_def
      scenario_agent_def double_1)

lemma scenario_actor_step_greedy:
  "actor_step scenario_world scenario_network scenario_config (Finite 1) 0 scenario_agent
     \<lparr> env = 1, actor_observation = Finite 2, episode_id = 0, cum_return = Finite 1,
       actor_training = True \<rparr>
   = Inr (scenario_agent,
          \<lparr> env = 0, actor_observation = Finite 0, episode_id = 1, cum_return = Finite 0,
            actor_training = False \<rparr>,
          \<lparr> observation = Finite 2, action = 1, reward = Finite 1,
            next_observation = Finite 2, done_flag = True \<rparr>)"
  by (simp add: actor_step_def act_def fp_ge_def scenario_world_def scenario_agent_def
      scenario_network_def scenario_config_fields max_row_def double_2 single_2 single_3)

lemma scenario_actor_loop:
  "actor_loop scenario_world scenario_network scenario_config [(Finite (1 / 2), 1), (Finite 1, 0)]
     scenario_agent (actor_start scenario_world 0 True)
   = Inr (scenario_agent,
          \<lparr> env = 0, actor_observation = Finite 0, episode_id = 1, cum_return = Finite 0,
            actor_training = False \<rparr>,
          [\<lparr> observation = Finite 0, action = 1, reward = Finite 1,
             next_observation = Finite 2, done_flag = False \<rparr>,
           \<lparr> observation = Finite 2, action = 1, reward = Finite 1,
             next_observation = Finite 2, done_flag = True \<rparr>])"
  by (simp add: scenario_actor_step scenario_actor_step_greedy)

theorem epsilon_publication_witness:
  "init scenario_fs scenario_config 0 True () (Some ''ckpt/agent.model-2'') =
     Inr (scenario_config,
          \<lparr> q_network = 1, q_training = True, target_q_network = None, target_training = True,
            optimizer = (), current_eps = Finite 1, episode_idx = 2 \<rparr>)
   \<and> [scenario_batch, scenario_batch] \<noteq> []
   \<and> update_target_network scenario_agent = Inr (scenario_agent\<lparr>target_q_network := Some 1\<rparr>)
   \<and> current_eps (agent_of (projr (learn_iter scenario_network
        (scenario_config\<lparr>double_dqn := True\<rparr>) scenario_batch (learn_start scenario_agent))))
       = Finite 1
   \<and> get_current_eps scenario_config 0 = Inr (Finite 1)
   \<and> current_eps (agent_of (projr (learn_loop scenario_network scenario_config
        [scenario_batch, scenario_batch]
        (learn_start \<lparr> q_network = 1, q_training = True, target_q_network = None,
                    target_training = True, optimizer = (), current_eps = Finite 1,
                    episode_idx = 2 \<rparr>)))) = Finite (8926134461448323 / 9007199254740992)
   \<and> get_current_eps scenario_config (int (length [scenario_batch, scenario_batch]) - 1)
       = Inr (Finite (8926134461448323 / 9007199254740992))
   \<and> current_eps scenario_agent = Finite 1
   \<and> actor_loop scenario_world scenario_network scenario_config
        [(Finite (1 / 2), 1), (Finite 1, 0)] scenario_agent (actor_start scenario_world 0 True)
      = Inr (scenario_agent,
          \<lparr> env = 0, actor_observation = Finite 0, episode_id = 1, cum_return = Finite 0,
            actor_training = False \<rparr>,
          [\<lparr> observation = Finite 0, action = 1, reward = Finite 1,
             next_observation = Finite 2, done_flag = False \<rparr>,
           \<lparr> observation = Finite 2, action = 1, reward = Finite 1,
             next_observation = Finite 2, done_flag = True \<rparr>])"
  using scenario_init scenario_double_iter_1 scenario_resumed_run scenario_actor_loop
    scenario_eps_0
    epsilon_publication [where fs = scenario_fs and args = scenario_config and w = 0
      and training = True and opt = "()" and path = "Some ''ckpt/agent.model-2''"
      and ?c0.0 = scenario_config
      and ?s0.0 = "\<lparr> q_network = 1, q_training = True, target_q_network = None,
            target_training = True, optimizer = (), current_eps = Finite 1, episode_idx = 2 \<rparr>"
      and net = scenario_network and c = "scenario_config\<lparr>double_dqn := True\<rparr>"
      and b = scenario_batch and l = "learn_start scenario_agent"]
    epsilon_publication [where fs = scenario_fs and args = scenario_config and w = 0
      and training = True and opt = "()" and path = "Some ''ckpt/agent.model-2''"
      and ?c0.0 = scenario_config
      and ?s0.0 = "\<lparr> q_network = 1, q_training = True, target_q_network = None,
            target_training = True, optimizer = (), current_eps = Finite 1, episode_idx = 2 \<rparr>"
      and net = scenario_network and c = scenario_config
      and world = scenario_world and draws = "[(Finite (1 / 2), 1), (Finite 1, 0)]"
      and s = scenario_agent and a = "actor_start scenario_world 0 True"]
  by (simp add: update_target_network_def scenario_agent_def learn_start_def scenario_eps_1)

lemmas deprecated_eval =
  deprecated_init_def train_iter_def decrease_epsilon_def bindE_def py_mod_def py_truediv_def
  Let_def path_join_def scenario_fs_def scenario_update_def

lemma scenario_deprecated_init:
  "deprecated_init scenario_fs 0 1 (1 / 10) 100 2 (Some ''ckpt'') 2 2 (Some ''ckpt/agent.model-2'')
     = Inr \<lparr> d_q_network = 1, d_target_q_network = 1, epsilon = 1, epsilon_min = 1 / 10,
             epsilon_decrease = 9 / 1000, d_steps = 2, d_target_update_freq = 2,
             d_save_model_dir = Some ''ckpt'', d_save_model_freq = 2, d_print_freq = 2,
             d_loss_sum = 0, d_saved = [] \<rparr>"
  using parse_suffix by (simp add: deprecated_eval)

lemma scenario_deprecated_run:
  "train_loop scenario_update [(), ()]
     \<lparr> d_q_network = 1, d_target_q_network = 1, epsilon = 1, epsilon_min = 1 / 10,
             epsilon_decrease = 9 / 1000, d_steps = 2, d_target_update_freq = 2,
             d_save_model_dir = Some ''ckpt'', d_save_model_freq = 2, d_print_freq = 2,
             d_loss_sum = 0, d_saved = [] \<rparr>
     = Inr \<lparr> d_q_network = 3, d_target_q_network = 1, epsilon = 982 / 1000, epsilon_min = 1 / 10,
             epsilon_decrease = 9 / 1000, d_steps = 4, d_target_update_freq = 2,
             d_save_model_dir = Some ''ckpt'', d_save_model_freq = 2, d_print_freq = 2,
             d_loss_sum = 0, d_saved = [(''ckpt/agent.model-4'', 3)] \<rparr>"
  using str_int_4 by (simp add: deprecated_eval)

text \<open>
  C9, at the failing input. The constructor reads \<open>2\<close> from the name
  \<open>ckpt/agent.model-2\<close> into \<open>_episode_idx\<close>, yet \<open>learn\<close> counts its steps from \<open>0\<close>:
  with \<open>save_model_freq = 2\<close> its first checkpoint after the resumption is again
  \<open>ckpt/agent.model-2\<close>. The deprecated agent, resumed from the same file, writes
  \<open>ckpt/agent.model-4\<close>.
\<close>

theorem resumed_step_count_restarts:
  "init scenario_fs scenario_config 0 True () (Some ''ckpt/agent.model-2'') =
     Inr (scenario_config,
          \<lparr> q_network = 1, q_training = True, target_q_network = None, target_training = True,
            optimizer = (), current_eps = Finite 1, episode_idx = 2 \<rparr>)
   \<and> steps (learn_start \<lparr> q_network = 1 :: real, q_training = True, target_q_network = None,
                target_training = True, optimizer = (), current_eps = Finite 1, episode_idx = 2 \<rparr>) = 0
   \<and> learn_loop scenario_network scenario_config [scenario_batch, scenario_batch]
        (learn_start \<lparr> q_network = 1, q_training = True, target_q_network = None,
                    target_training = True, optimizer = (), current_eps = Finite 1,
                    episode_idx = 2 \<rparr>) =
      Inr \<lparr> agent_of = \<lparr> q_network = 3, q_training = True, target_q_network = None,
                      target_training = True, optimizer = (), current_eps = Finite (8926134461448323 / 9007199254740992),
                      episode_idx = 2 \<rparr>,
         steps = 2, loss_sum = Finite 0, saved = [(''ckpt/agent.model-2'', 3)],
         printed = [(2, Finite (8926134461448323 / 9007199254740992), Finite 1)] \<rparr>
   \<and> d_saved (projr (train_loop scenario_update [(), ()]
        (projr (deprecated_init scenario_fs 0 1 (1 / 10) 100 2 (Some ''ckpt'') 2 2
                  (Some ''ckpt/agent.model-2''))))) = [(''ckpt/agent.model-4'', 3)]"
  using scenario_init scenario_resumed_run scenario_deprecated_init scenario_deprecated_run
  by (simp add: learn_start_def)

section \<open>The warmup gate of the batch builder\<close>

lemma scenario_setup:
  "prepare_batch_setup scenario_config =
     Inr \<lparr> memory = \<lparr> capacity = 100, buffer = [], write_cursor = 0 \<rparr>, builder_steps = 0,
           steps_per_frame = 0, frames_per_step = 1 \<rparr>"
  by (simp add: prepare_batch_setup_def scenario_config_def num_threads_def py_int_def Let_def)

lemmas builder_eval =
  prepare_batch_iter_def bindE_def push_def len_memory_def sample_def num_threads_def Let_def
  scenario_config_def

lemma scenario_builder_turn:
  "length buf < 3 \<Longrightarrow>
   prepare_batch_iter scenario_config rnd
     \<lparr> memory = \<lparr> capacity = 100, buffer = buf, write_cursor = length buf \<rparr>,
       builder_steps = k, steps_per_frame = 0, frames_per_step = 1 \<rparr> (t # queue) =
   Inr (\<lparr> memory = \<lparr> capacity = 100, buffer = buf @ [t], write_cursor = length buf + 1 \<rparr>,
          builder_steps = k + 1, steps_per_frame = 0, frames_per_step = 1 \<rparr>, queue, Warmup)"
  by (simp add: builder_eval)

lemma scenario_builder_fourth_turn:
  "length buf = 3 \<Longrightarrow>
   prepare_batch_iter scenario_config rnd
     \<lparr> memory = \<lparr> capacity = 100, buffer = buf, write_cursor = length buf \<rparr>,
       builder_steps = k, steps_per_frame = 0, frames_per_step = 1 \<rparr> (t # queue) =
   Inl AssertionError"
  by (simp add: builder_eval)

lemma four_turns: "(4 :: nat) = Suc (Suc (Suc (Suc 0)))"
  by simp

lemma three_turns: "(3 :: nat) = Suc (Suc (Suc 0))"
  by simp

lemma scenario_builder_warmup:
  "prepare_batch_loop 3 scenario_config rnd
     \<lparr> memory = \<lparr> capacity = 100, buffer = [], write_cursor = 0 \<rparr>, builder_steps = 0,
       steps_per_frame = 0, frames_per_step = 1 \<rparr> scenario_queue =
   Inr (\<lparr> memory = \<lparr> capacity = 100,
                      buffer = [scenario_transition, scenario_transition, scenario_transition],
                      write_cursor = 3 \<rparr>,
          builder_steps = 3, steps_per_frame = 0, frames_per_step = 1 \<rparr>,
        [scenario_transition], [])"
proof -
  note t1 = scenario_builder_turn [of "[]", simplified]
  note t2 = scenario_builder_turn [of "[scenario_transition]", simplified]
  note t3 = scenario_builder_turn [of "[scenario_transition, scenario_transition]", simplified]
  show ?thesis
    unfolding three_turns scenario_queue_def
    by (simp add: t1 t2 t3 bindE_def)
qed

lemma scenario_builder_sample:
  "prepare_batch_loop 4 scenario_config rnd
     \<lparr> memory = \<lparr> capacity = 100, buffer = [], write_cursor = 0 \<rparr>, builder_steps = 0,
       steps_per_frame = 0, frames_per_step = 1 \<rparr> scenario_queue =
   Inl AssertionError"
proof -
  note t1 = scenario_builder_turn [of "[]", simplified]
  note t2 = scenario_builder_turn [of "[scenario_transition]", simplified]
  note t3 = scenario_builder_turn [of "[scenario_transition, scenario_transition]", simplified]
  note t4 = scenario_builder_fourth_turn
    [of "[scenario_transition, scenario_transition, scenario_transition]", simplified]
  show ?thesis
    unfolding four_turns scenario_queue_def
    by (simp add: t1 t2 t3 t4 bindE_def)
qed

text \<open>
  C2, at the failing input. With \<open>batch_size = 32\<close> and \<open>init_memory_size = 32\<close> the
  warmup gate compares the count with \<open>32 / 8 = 4\<close>: the first three turns of a builder
  skip the batch, and the fourth samples \<open>32\<close> transitions from a shard that holds \<open>4\<close>.
\<close>

theorem warmup_gate_undersized_sample:
  "init scenario_fs scenario_config (0 :: real) True () None =
     Inr (scenario_config,
          \<lparr> q_network = 0, q_training = True, target_q_network = None, target_training = True,
            optimizer = (), current_eps = Finite 1, episode_idx = 0 \<rparr>)
   \<and> batch_size scenario_config = 32 \<and> init_memory_size scenario_config = 32
   \<and> prepare_batch_setup scenario_config =
       Inr \<lparr> memory = \<lparr> capacity = 100, buffer = [], write_cursor = 0 \<rparr>, builder_steps = 0,
             steps_per_frame = 0, frames_per_step = 1 \<rparr>
   \<and> prepare_batch_loop 3 scenario_config (\<lambda>k i. i)
        \<lparr> memory = \<lparr> capacity = 100, buffer = [], write_cursor = 0 \<rparr>, builder_steps = 0,
          steps_per_frame = 0, frames_per_step = 1 \<rparr> scenario_queue =
       Inr (\<lparr> memory = \<lparr> capacity = 100,
                      buffer = [scenario_transition, scenario_transition, scenario_transition],
                      write_cursor = 3 \<rparr>,
              builder_steps = 3, steps_per_frame = 0, frames_per_step = 1 \<rparr>,
            [scenario_transition], [])
   \<and> \<not> real_of_int (len_memory \<lparr> capacity = 100, buffer = scenario_queue, write_cursor = 4 \<rparr>)
         < real_of_int (init_memory_size scenario_config) / real_of_int num_threads
   \<and> len_memory \<lparr> capacity = 100, buffer = scenario_queue, write_cursor = 4 \<rparr>
         < batch_size scenario_config
   \<and> prepare_batch_loop 4 scenario_config (\<lambda>k i. i)
        \<lparr> memory = \<lparr> capacity = 100, buffer = [], write_cursor = 0 \<rparr>, builder_steps = 0,
          steps_per_frame = 0, frames_per_step = 1 \<rparr> scenario_queue =
       Inl AssertionError"
  using scenario_setup scenario_builder_warmup [of "\<lambda>k i. i"]
    scenario_builder_sample [of "\<lambda>k i. i"]
  by (simp add: init_def Let_def bindE_def len_memory_def num_threads_def scenario_queue_def
      scenario_config_def)

section \<open>Epsilon in the deprecated agent\<close>








end
